theory Spec2Isabelle
  imports Main
begin

section \<open>Errors\<close>

text \<open>
  Go errors are values that carry a message. The constructors keep apart where an error
  was made: \<open>errors.New\<close> in the services, the database driver, the bcrypt package, the
  jwt package, and the gRPC client (status code and description).
\<close>

datatype error =
    ErrorsNew string
  | DriverError string
  | BcryptError string
  | JwtError string
  | RpcError string string

fun Error :: "error \<Rightarrow> string" where
  "Error (ErrorsNew m) = m"
| "Error (DriverError m) = m"
| "Error (BcryptError m) = m"
| "Error (JwtError m) = m"
| "Error (RpcError code desc) = ''rpc error: code = '' @ code @ '' desc = '' @ desc"

section \<open>Credential Store (auth-service/internal/repository)\<close>

text \<open>Times are Unix seconds; \<open>zero_time\<close> is Go's zero \<open>time.Time\<close>.\<close>

type_synonym time = int

definition zero_time :: time where
  "zero_time = - 62135596800"

record auth_User =
  au_ID :: string
  au_Email :: string
  au_Password :: string
  au_Name :: string
  au_CreatedAt :: time
  au_LastLogin :: time

text \<open>
  The database behind \<open>PostgresUserRepository\<close>: the rows of table \<open>users\<close> in insertion
  order, and whether the server answers. A statement sent to a server that does not
  answer returns a driver error and changes nothing.
\<close>

record AuthDB =
  auth_rows :: "auth_User list"
  auth_reachable :: bool

definition connection_refused :: error where
  "connection_refused = DriverError ''dial tcp: connect: connection refused''"

definition unique_violation :: error where
  "unique_violation = DriverError ''pq: duplicate key value violates unique constraint''"

text \<open>
  \<open>CreateUser\<close> overwrites the id with a new UUID and the creation time with the clock,
  both before the INSERT, so the caller's struct is changed also when the INSERT fails.
  The UUID and the clock reading are inputs. Table \<open>users\<close> has \<open>id\<close> as primary key and
  \<open>email\<close> UNIQUE; an INSERT that breaks either is refused. The length limits of the
  columns are not modelled.
\<close>

definition auth_CreateUser ::
  "AuthDB \<Rightarrow> string \<Rightarrow> time \<Rightarrow> auth_User \<Rightarrow> error option \<times> auth_User \<times> AuthDB" where
  "auth_CreateUser db uuid now user =
     (let user' = user\<lparr>au_ID := uuid, au_CreatedAt := now\<rparr> in
      if \<not> auth_reachable db then (Some connection_refused, user', db)
      else if list_ex (\<lambda>r. au_ID r = au_ID user' \<or> au_Email r = au_Email user') (auth_rows db)
        then (Some unique_violation, user', db)
      else (None, user', db\<lparr>auth_rows := auth_rows db @ [user']\<rparr>))"

text \<open>\<open>GetUserByEmail\<close>: \<open>(nil, nil)\<close> on \<open>sql.ErrNoRows\<close>, else the first row found or the error.\<close>

definition auth_GetUserByEmail :: "AuthDB \<Rightarrow> string \<Rightarrow> error + auth_User option" where
  "auth_GetUserByEmail db email =
     (if \<not> auth_reachable db then Inl connection_refused
      else Inr (find (\<lambda>r. au_Email r = email) (auth_rows db)))"

definition auth_GetUserByID :: "AuthDB \<Rightarrow> string \<Rightarrow> error + auth_User option" where
  "auth_GetUserByID db ident =
     (if \<not> auth_reachable db then Inl connection_refused
      else Inr (find (\<lambda>r. au_ID r = ident) (auth_rows db)))"

section \<open>Secret Hasher and Token Codec (imported packages)\<close>

text \<open>
  A JSON claim value, as far as the service looks at it: a string, a number (Unix
  seconds), or anything else. \<open>MapClaims\<close> is Go's \<open>map[string]interface{}\<close>.
\<close>

datatype claim_value = StringClaim string | NumberClaim int | OtherClaim

type_synonym MapClaims = "string \<rightharpoonup> claim_value"

text \<open>
  The primitives of \<open>golang.org/x/crypto/bcrypt\<close> and \<open>github.com/golang-jwt/jwt/v5\<close> that
  the services call are parameters:
  \<^item> \<open>bcrypt_GenerateFromPassword salt password cost\<close>: the hash, or an error (the salt is
    the random input of the call);
  \<^item> \<open>bcrypt_CompareHashAndPassword hashedPassword password\<close>: \<open>None\<close> (Go's \<open>nil\<close>) on a
    match, an error otherwise;
  \<^item> \<open>jwt_SigningString claims\<close>: the first two segments of the token, header and
    claims, encoded and joined by a dot;
  \<^item> \<open>jwt_HS256 signingString key\<close>: the encoded HMAC-SHA256 signature segment;
  \<^item> \<open>jwt_ParseUnverified tokenString\<close>: the decoded claims, the signing string and the
    signature segment of a well-formed token, \<open>None\<close> for a malformed one.
\<close>

record Libs =
  bcrypt_GenerateFromPassword :: "string \<Rightarrow> string \<Rightarrow> nat \<Rightarrow> error + string"
  bcrypt_CompareHashAndPassword :: "string \<Rightarrow> string \<Rightarrow> error option"
  jwt_SigningString :: "MapClaims \<Rightarrow> string"
  jwt_HS256 :: "string \<Rightarrow> string \<Rightarrow> string"
  jwt_ParseUnverified :: "string \<Rightarrow> (MapClaims \<times> string \<times> string) option"

definition bcrypt_DefaultCost :: nat where
  "bcrypt_DefaultCost = 10"

record jwt_Token =
  Claims :: MapClaims
  Valid :: bool

text \<open>\<open>token.SignedString(key)\<close>: signing string, a dot, the signature over the signing string.\<close>

definition jwt_SignedString :: "Libs \<Rightarrow> string \<Rightarrow> MapClaims \<Rightarrow> error + string" where
  "jwt_SignedString lib key claims =
     (let sstr = jwt_SigningString lib claims in Inr (sstr @ ''.'' @ jwt_HS256 lib sstr key))"

text \<open>
  Modelled from the spec: the verification half of the Token Codec, which is the imported
  function \<open>jwt.Parse\<close> (section 4.3: Verify recomputes the signature over the decoded
  claims and rejects if it does not match the one embedded in the token, or if
  \<open>expiresAt <= now\<close>; a structurally malformed token is rejected). The expiry is claim
  \<open>exp\<close>; a claim set without it has no expiry to check, and an \<open>exp\<close> that is not a number
  is rejected.
\<close>

definition jwt_Parse :: "Libs \<Rightarrow> string \<Rightarrow> time \<Rightarrow> string \<Rightarrow> error + jwt_Token" where
  "jwt_Parse lib key now tokenString =
     (case jwt_ParseUnverified lib tokenString of
        None \<Rightarrow> Inl (JwtError ''token is malformed'')
      | Some (claims, sstr, sig) \<Rightarrow>
          if jwt_HS256 lib sstr key \<noteq> sig then Inl (JwtError ''token signature is invalid'')
          else (case claims ''exp'' of
                  None \<Rightarrow> Inr \<lparr>Claims = claims, Valid = True\<rparr>
                | Some (NumberClaim e) \<Rightarrow>
                    if e \<le> now then Inl (JwtError ''token is expired'')
                    else Inr \<lparr>Claims = claims, Valid = True\<rparr>
                | Some _ \<Rightarrow> Inl (JwtError ''token has invalid claims'')))"

section \<open>Credential Service (auth-service/internal/service/auth_service.go)\<close>

text \<open>
  \<open>Register\<close> returns the result and the database after the call. The UUID, the salt and
  the clock reading are the inputs the call draws from its environment.
\<close>

definition AuthService_Register ::
  "Libs \<Rightarrow> AuthDB \<Rightarrow> string \<Rightarrow> string \<Rightarrow> time \<Rightarrow> string \<Rightarrow> string \<Rightarrow> string
     \<Rightarrow> (error + string) \<times> AuthDB" where
  "AuthService_Register lib db uuid salt now email password name =
     (case auth_GetUserByEmail db email of
        Inl err \<Rightarrow> (Inl err, db)
      | Inr (Some existingUser) \<Rightarrow> (Inl (ErrorsNew ''email already registered''), db)
      | Inr None \<Rightarrow>
          (case bcrypt_GenerateFromPassword lib salt password bcrypt_DefaultCost of
             Inl err \<Rightarrow> (Inl err, db)
           | Inr hashedPassword \<Rightarrow>
               (let newUser = \<lparr>au_ID = [], au_Email = email, au_Password = hashedPassword,
                               au_Name = name, au_CreatedAt = zero_time,
                               au_LastLogin = zero_time\<rparr>
                in case auth_CreateUser db uuid now newUser of
                     (Some err, newUser', db') \<Rightarrow> (Inl err, db')
                   | (None, newUser', db') \<Rightarrow> (Inr (au_ID newUser'), db'))))"

definition login_claims :: "string \<Rightarrow> time \<Rightarrow> MapClaims" where
  "login_claims userID now =
     [''user_id'' \<mapsto> StringClaim userID, ''exp'' \<mapsto> NumberClaim (now + 24 * 3600)]"

definition AuthService_Login ::
  "Libs \<Rightarrow> string \<Rightarrow> AuthDB \<Rightarrow> time \<Rightarrow> string \<Rightarrow> string \<Rightarrow> error + string" where
  "AuthService_Login lib jwtSecret db now email password =
     (case auth_GetUserByEmail db email of
        Inl err \<Rightarrow> Inl (ErrorsNew ''invalid credentials'')
      | Inr None \<Rightarrow> Inl (ErrorsNew ''invalid credentials'')
      | Inr (Some user) \<Rightarrow>
          (case bcrypt_CompareHashAndPassword lib (au_Password user) password of
             Some err \<Rightarrow> Inl (ErrorsNew ''invalid credentials'')
           | None \<Rightarrow>
               (case jwt_SignedString lib jwtSecret (login_claims (au_ID user) now) of
                  Inl err \<Rightarrow> Inl err
                | Inr tokenString \<Rightarrow> Inr tokenString)))"

definition AuthService_ValidateToken ::
  "Libs \<Rightarrow> string \<Rightarrow> time \<Rightarrow> string \<Rightarrow> error + string" where
  "AuthService_ValidateToken lib jwtSecret now tokenString =
     (case jwt_Parse lib jwtSecret now tokenString of
        Inl err \<Rightarrow> Inl err
      | Inr token \<Rightarrow>
          if \<not> Valid token then Inl (ErrorsNew ''Invalid token'')
          else (case Claims token ''user_id'' of
                  Some (StringClaim userIDStr) \<Rightarrow> Inr userIDStr
                | _ \<Rightarrow> Inl (ErrorsNew ''Invalid token claims'')))"

section \<open>Profile Store and User Service (user-service)\<close>

record profile_User =
  pu_ID :: string
  pu_Email :: string
  pu_Name :: string
  pu_Phone :: string
  pu_CreatedAt :: time
  pu_UpdatedAt :: time
  pu_DeletedAt :: "time option"

record Address =
  ad_ID :: string
  ad_UserID :: string
  ad_Street :: string
  ad_City :: string
  ad_State :: string
  ad_PostalCode :: string
  ad_Country :: string
  ad_IsDefault :: bool
  ad_CreatedAt :: time

record UserDB =
  user_rows :: "profile_User list"
  address_rows :: "Address list"
  user_reachable :: bool

text \<open>
  The repository of the user service. \<open>CreateUser\<close> draws a UUID only when the caller gave
  no id. Table \<open>users\<close> has \<open>id\<close> as primary key and \<open>email\<close> UNIQUE, soft-deleted rows
  included. \<open>GetUserByID\<close> skips soft-deleted rows; the UPDATE of \<open>UpdateUser\<close> and of
  \<open>DeleteUser\<close> selects by id alone. Table \<open>addresses\<close> has \<open>id\<close> as primary key and a
  foreign key from \<open>user_id\<close> to \<open>users(id)\<close>.
\<close>

definition user_CreateUser ::
  "UserDB \<Rightarrow> string \<Rightarrow> time \<Rightarrow> profile_User \<Rightarrow> error option \<times> profile_User \<times> UserDB" where
  "user_CreateUser db uuid now user =
     (let user1 = (if pu_ID user = [] then user\<lparr>pu_ID := uuid\<rparr> else user);
          user' = user1\<lparr>pu_CreatedAt := now, pu_UpdatedAt := now\<rparr> in
      if \<not> user_reachable db then (Some connection_refused, user', db)
      else if list_ex (\<lambda>r. pu_ID r = pu_ID user' \<or> pu_Email r = pu_Email user') (user_rows db)
        then (Some unique_violation, user', db)
      else (None, user', db\<lparr>user_rows := user_rows db @ [user']\<rparr>))"

definition user_GetUserByID :: "UserDB \<Rightarrow> string \<Rightarrow> error + profile_User option" where
  "user_GetUserByID db userID =
     (if \<not> user_reachable db then Inl connection_refused
      else Inr (find (\<lambda>r. pu_ID r = userID \<and> pu_DeletedAt r = None) (user_rows db)))"

definition user_UpdateUser ::
  "UserDB \<Rightarrow> time \<Rightarrow> profile_User \<Rightarrow> error option \<times> profile_User \<times> UserDB" where
  "user_UpdateUser db now user =
     (let user' = user\<lparr>pu_UpdatedAt := now\<rparr> in
      if \<not> user_reachable db then (Some connection_refused, user', db)
      else (None, user',
            db\<lparr>user_rows :=
                 map (\<lambda>r. if pu_ID r = pu_ID user'
                          then r\<lparr>pu_Name := pu_Name user', pu_Phone := pu_Phone user',
                                 pu_UpdatedAt := pu_UpdatedAt user'\<rparr>
                          else r) (user_rows db)\<rparr>))"

definition user_DeleteUser :: "UserDB \<Rightarrow> time \<Rightarrow> string \<Rightarrow> error option \<times> UserDB" where
  "user_DeleteUser db now userID =
     (if \<not> user_reachable db then (Some connection_refused, db)
      else (None,
            db\<lparr>user_rows :=
                 map (\<lambda>r. if pu_ID r = userID then r\<lparr>pu_DeletedAt := Some now\<rparr> else r)
                   (user_rows db)\<rparr>))"

definition foreign_key_violation :: error where
  "foreign_key_violation = DriverError ''pq: insert violates foreign key constraint''"

definition user_AddAddress ::
  "UserDB \<Rightarrow> string \<Rightarrow> time \<Rightarrow> Address \<Rightarrow> error option \<times> Address \<times> UserDB" where
  "user_AddAddress db uuid now address =
     (let address1 = (if ad_ID address = [] then address\<lparr>ad_ID := uuid\<rparr> else address);
          address' = address1\<lparr>ad_CreatedAt := now\<rparr> in
      if \<not> user_reachable db then (Some connection_refused, address', db)
      else if list_ex (\<lambda>a. ad_ID a = ad_ID address') (address_rows db)
        then (Some unique_violation, address', db)
      else if \<not> list_ex (\<lambda>r. pu_ID r = ad_UserID address') (user_rows db)
        then (Some foreign_key_violation, address', db)
      else (None, address', db\<lparr>address_rows := address_rows db @ [address']\<rparr>))"

definition user_GetAddressesByUserID :: "UserDB \<Rightarrow> string \<Rightarrow> error + Address list" where
  "user_GetAddressesByUserID db userID =
     (if \<not> user_reachable db then Inl connection_refused
      else Inr (filter (\<lambda>a. ad_UserID a = userID) (address_rows db)))"

text \<open>The service layer (user-service/internal/service/user_service.go).\<close>

definition UserService_CreateUser ::
  "UserDB \<Rightarrow> string \<Rightarrow> time \<Rightarrow> string \<Rightarrow> string \<Rightarrow> string \<Rightarrow> string
     \<Rightarrow> (error + profile_User) \<times> UserDB" where
  "UserService_CreateUser db uuid now userID email name phone =
     (if email = [] then (Inl (ErrorsNew ''email is required''), db)
      else if name = [] then (Inl (ErrorsNew ''name is required''), db)
      else (let user = \<lparr>pu_ID = userID, pu_Email = email, pu_Name = name, pu_Phone = phone,
                         pu_CreatedAt = zero_time, pu_UpdatedAt = zero_time,
                         pu_DeletedAt = None\<rparr>
            in case user_CreateUser db uuid now user of
                 (Some err, user', db') \<Rightarrow> (Inl err, db')
               | (None, user', db') \<Rightarrow> (Inr user', db')))"

definition UserService_GetUser :: "UserDB \<Rightarrow> string \<Rightarrow> error + profile_User" where
  "UserService_GetUser db userID =
     (if userID = [] then Inl (ErrorsNew ''user ID is required'')
      else (case user_GetUserByID db userID of
              Inl err \<Rightarrow> Inl err
            | Inr None \<Rightarrow> Inl (ErrorsNew ''user not found'')
            | Inr (Some user) \<Rightarrow> Inr user))"

definition UserService_UpdateUser ::
  "UserDB \<Rightarrow> time \<Rightarrow> string \<Rightarrow> string \<Rightarrow> string \<Rightarrow> (error + profile_User) \<times> UserDB" where
  "UserService_UpdateUser db now userID name phone =
     (if userID = [] then (Inl (ErrorsNew ''user ID is required''), db)
      else (case user_GetUserByID db userID of
              Inl err \<Rightarrow> (Inl err, db)
            | Inr None \<Rightarrow> (Inl (ErrorsNew ''user not found''), db)
            | Inr (Some user) \<Rightarrow>
                (case user_UpdateUser db now (user\<lparr>pu_Name := name, pu_Phone := phone\<rparr>) of
                   (Some err_update, user', db') \<Rightarrow> (Inl err_update, db')
                 | (None, user', db') \<Rightarrow> (Inr user', db'))))"

definition UserService_DeleteUser :: "UserDB \<Rightarrow> time \<Rightarrow> string \<Rightarrow> error option \<times> UserDB" where
  "UserService_DeleteUser db now userID =
     (if userID = [] then (Some (ErrorsNew ''user ID is required''), db)
      else user_DeleteUser db now userID)"

definition UserService_AddAddress ::
  "UserDB \<Rightarrow> string \<Rightarrow> time \<Rightarrow> string \<Rightarrow> string \<Rightarrow> string \<Rightarrow> string \<Rightarrow> string \<Rightarrow> string
     \<Rightarrow> bool \<Rightarrow> (error + Address) \<times> UserDB" where
  "UserService_AddAddress db uuid now userID street city state postalCode country isDefault =
     (if userID = [] then (Inl (ErrorsNew ''user ID is required''), db)
      else if street = [] \<or> city = [] \<or> postalCode = [] \<or> country = []
        then (Inl (ErrorsNew ''street, city, postal code, and country are required''), db)
      else (let address = \<lparr>ad_ID = [], ad_UserID = userID, ad_Street = street, ad_City = city,
                            ad_State = state, ad_PostalCode = postalCode,
                            ad_Country = country, ad_IsDefault = isDefault,
                            ad_CreatedAt = zero_time\<rparr>
            in case user_AddAddress db uuid now address of
                 (Some err, address', db') \<Rightarrow> (Inl err, db')
               | (None, address', db') \<Rightarrow> (Inr address', db')))"

definition UserService_GetAddresses :: "UserDB \<Rightarrow> string \<Rightarrow> error + Address list" where
  "UserService_GetAddresses db userID =
     (if userID = [] then Inl (ErrorsNew ''user ID is required'')
      else user_GetAddressesByUserID db userID)"

text \<open>
  The gRPC handlers of the user service. A service error travels in the response's
  \<open>Error\<close> field, never as a gRPC error. The address list of \<open>pb.User\<close> is left out: the
  handlers only read it, and the gateway does not look at it.
\<close>

record pb_User =
  pb_Id :: string
  pb_Email :: string
  pb_Name :: string
  pb_Phone :: string
  pb_CreatedAt :: time
  pb_UpdatedAt :: time

record pb_UserResponse =
  ur_User :: "pb_User option"
  ur_Error :: string

record pb_CreateUserRequest =
  cu_UserId :: string
  cu_Email :: string
  cu_Name :: string
  cu_Phone :: string

record pb_UpdateUserRequest =
  uu_UserId :: string
  uu_Name :: string
  uu_Phone :: string

definition to_pb_User :: "profile_User \<Rightarrow> pb_User" where
  "to_pb_User user =
     \<lparr>pb_Id = pu_ID user, pb_Email = pu_Email user, pb_Name = pu_Name user,
      pb_Phone = pu_Phone user, pb_CreatedAt = pu_CreatedAt user,
      pb_UpdatedAt = pu_UpdatedAt user\<rparr>"

definition UserHandler_CreateUser ::
  "UserDB \<Rightarrow> string \<Rightarrow> time \<Rightarrow> pb_CreateUserRequest \<Rightarrow> pb_UserResponse \<times> UserDB" where
  "UserHandler_CreateUser db uuid now req =
     (case UserService_CreateUser db uuid now (cu_UserId req) (cu_Email req) (cu_Name req)
             (cu_Phone req) of
        (Inl err, db') \<Rightarrow> (\<lparr>ur_User = None, ur_Error = Error err\<rparr>, db')
      | (Inr user, db') \<Rightarrow> (\<lparr>ur_User = Some (to_pb_User user), ur_Error = []\<rparr>, db'))"

definition UserHandler_GetUser :: "UserDB \<Rightarrow> string \<Rightarrow> pb_UserResponse" where
  "UserHandler_GetUser db userId =
     (case UserService_GetUser db userId of
        Inl err \<Rightarrow> \<lparr>ur_User = None, ur_Error = Error err\<rparr>
      | Inr user \<Rightarrow> \<lparr>ur_User = Some (to_pb_User user), ur_Error = []\<rparr>)"

definition UserHandler_UpdateUser ::
  "UserDB \<Rightarrow> time \<Rightarrow> pb_UpdateUserRequest \<Rightarrow> pb_UserResponse \<times> UserDB" where
  "UserHandler_UpdateUser db now req =
     (case UserService_UpdateUser db now (uu_UserId req) (uu_Name req) (uu_Phone req) of
        (Inl err, db') \<Rightarrow> (\<lparr>ur_User = None, ur_Error = Error err\<rparr>, db')
      | (Inr user, db') \<Rightarrow> (\<lparr>ur_User = Some (to_pb_User user), ur_Error = []\<rparr>, db'))"

record pb_DeleteUserResponse =
  du_IsDeleted :: bool
  du_Error :: string

record pb_Address =
  pa_Id :: string
  pa_UserId :: string
  pa_Street :: string
  pa_City :: string
  pa_State :: string
  pa_PostalCode :: string
  pa_Country :: string
  pa_IsDefault :: bool
  pa_CreatedAt :: time

record pb_AddAddressRequest =
  aa_UserId :: string
  aa_Street :: string
  aa_City :: string
  aa_State :: string
  aa_PostalCode :: string
  aa_Country :: string
  aa_IsDefault :: bool

record pb_AddAddressResponse =
  ar_Address :: "pb_Address option"
  ar_Error :: string

record pb_GetAddressesResponse =
  ga_Addresses :: "pb_Address list"
  ga_Error :: string

definition to_pb_Address :: "Address \<Rightarrow> pb_Address" where
  "to_pb_Address a =
     \<lparr>pa_Id = ad_ID a, pa_UserId = ad_UserID a, pa_Street = ad_Street a, pa_City = ad_City a,
      pa_State = ad_State a, pa_PostalCode = ad_PostalCode a, pa_Country = ad_Country a,
      pa_IsDefault = ad_IsDefault a, pa_CreatedAt = ad_CreatedAt a\<rparr>"

definition UserHandler_DeleteUser ::
  "UserDB \<Rightarrow> time \<Rightarrow> string \<Rightarrow> pb_DeleteUserResponse \<times> UserDB" where
  "UserHandler_DeleteUser db now userId =
     (case UserService_DeleteUser db now userId of
        (Some err, db') \<Rightarrow> (\<lparr>du_IsDeleted = False, du_Error = Error err\<rparr>, db')
      | (None, db') \<Rightarrow> (\<lparr>du_IsDeleted = True, du_Error = []\<rparr>, db'))"

definition UserHandler_AddAddress ::
  "UserDB \<Rightarrow> string \<Rightarrow> time \<Rightarrow> pb_AddAddressRequest \<Rightarrow> pb_AddAddressResponse \<times> UserDB" where
  "UserHandler_AddAddress db uuid now req =
     (case UserService_AddAddress db uuid now (aa_UserId req) (aa_Street req) (aa_City req)
             (aa_State req) (aa_PostalCode req) (aa_Country req) (aa_IsDefault req) of
        (Inl err, db') \<Rightarrow> (\<lparr>ar_Address = None, ar_Error = Error err\<rparr>, db')
      | (Inr address, db') \<Rightarrow>
          (\<lparr>ar_Address = Some (to_pb_Address address), ar_Error = []\<rparr>, db'))"

definition UserHandler_GetAddresses :: "UserDB \<Rightarrow> string \<Rightarrow> pb_GetAddressesResponse" where
  "UserHandler_GetAddresses db userId =
     (case UserService_GetAddresses db userId of
        Inl err \<Rightarrow> \<lparr>ga_Addresses = [], ga_Error = Error err\<rparr>
      | Inr addresses \<Rightarrow> \<lparr>ga_Addresses = map to_pb_Address addresses, ga_Error = []\<rparr>)"

section \<open>The two services as one system\<close>

text \<open>
  The state of the deployment: the two databases, and whether each gRPC server can be
  reached. A call to a server that cannot be reached returns a gRPC error of code
  Unavailable and changes nothing. An error returned by a handler reaches the client as
  a gRPC error: with its own code and description when it already is a gRPC error (the
  error of a call the handler made itself), and else with code Unknown and the error's
  message as description.
\<close>

record System =
  sys_auth :: AuthDB
  sys_user :: UserDB
  auth_service_up :: bool
  user_service_up :: bool

text \<open>What one request draws from its environment: two UUIDs, a salt, the clock.\<close>

record Env =
  env_uuid :: string
  env_uuid2 :: string
  env_salt :: string
  env_now :: time

definition unavailable :: error where
  "unavailable = RpcError ''Unavailable'' ''connection error''"

fun status_of_error :: "error \<Rightarrow> error" where
  "status_of_error (RpcError code desc) = RpcError code desc"
| "status_of_error (ErrorsNew m) = RpcError ''Unknown'' m"
| "status_of_error (DriverError m) = RpcError ''Unknown'' m"
| "status_of_error (BcryptError m) = RpcError ''Unknown'' m"
| "status_of_error (JwtError m) = RpcError ''Unknown'' m"

definition userClient_CreateUser ::
  "System \<Rightarrow> Env \<Rightarrow> pb_CreateUserRequest \<Rightarrow> (error + pb_UserResponse) \<times> System" where
  "userClient_CreateUser sys env req =
     (if \<not> user_service_up sys then (Inl unavailable, sys)
      else (case UserHandler_CreateUser (sys_user sys) (env_uuid2 env) (env_now env) req of
              (resp, db') \<Rightarrow> (Inr resp, sys\<lparr>sys_user := db'\<rparr>)))"

definition userClient_UpdateUser ::
  "System \<Rightarrow> Env \<Rightarrow> pb_UpdateUserRequest \<Rightarrow> (error + pb_UserResponse) \<times> System" where
  "userClient_UpdateUser sys env req =
     (if \<not> user_service_up sys then (Inl unavailable, sys)
      else (case UserHandler_UpdateUser (sys_user sys) (env_now env) req of
              (resp, db') \<Rightarrow> (Inr resp, sys\<lparr>sys_user := db'\<rparr>)))"

definition userClient_GetUser :: "System \<Rightarrow> string \<Rightarrow> error + pb_UserResponse" where
  "userClient_GetUser sys userId =
     (if \<not> user_service_up sys then Inl unavailable
      else Inr (UserHandler_GetUser (sys_user sys) userId))"

definition userClient_DeleteUser ::
  "System \<Rightarrow> Env \<Rightarrow> string \<Rightarrow> (error + pb_DeleteUserResponse) \<times> System" where
  "userClient_DeleteUser sys env userId =
     (if \<not> user_service_up sys then (Inl unavailable, sys)
      else (case UserHandler_DeleteUser (sys_user sys) (env_now env) userId of
              (resp, db') \<Rightarrow> (Inr resp, sys\<lparr>sys_user := db'\<rparr>)))"

definition userClient_AddAddress ::
  "System \<Rightarrow> Env \<Rightarrow> pb_AddAddressRequest \<Rightarrow> (error + pb_AddAddressResponse) \<times> System" where
  "userClient_AddAddress sys env req =
     (if \<not> user_service_up sys then (Inl unavailable, sys)
      else (case UserHandler_AddAddress (sys_user sys) (env_uuid2 env) (env_now env) req of
              (resp, db') \<Rightarrow> (Inr resp, sys\<lparr>sys_user := db'\<rparr>)))"

definition userClient_GetAddresses :: "System \<Rightarrow> string \<Rightarrow> error + pb_GetAddressesResponse" where
  "userClient_GetAddresses sys userId =
     (if \<not> user_service_up sys then Inl unavailable
      else Inr (UserHandler_GetAddresses (sys_user sys) userId))"

section \<open>gRPC handlers of the auth service (auth-service/internal/handlers)\<close>

record pb_RegisterRequest =
  rr_Email :: string
  rr_Password :: string
  rr_Name :: string

record pb_RegisterResponse =
  rs_UserId :: string
  rs_Message :: string

record pb_LoginRequest =
  lr_Email :: string
  lr_Password :: string

record pb_LoginResponse =
  ls_Token :: string
  ls_UserId :: string
  ls_Name :: string

record pb_ValidateTokenResponse =
  vt_Valid :: bool
  vt_UserId :: string
  vt_Error :: string

text \<open>
  The auth service: its libraries and its signing secret, fixed at start-up. \<open>Register\<close>
  is the handler that holds a client of the user service and creates the profile after
  the account; \<open>Login\<close> and \<open>ValidateToken\<close> wrap the service.
\<close>

record AuthService =
  libs :: Libs
  jwtSecret :: string

definition AuthHandler_Register ::
  "AuthService \<Rightarrow> System \<Rightarrow> Env \<Rightarrow> pb_RegisterRequest
     \<Rightarrow> (error + pb_RegisterResponse) \<times> System" where
  "AuthHandler_Register svc sys env req =
     (case AuthService_Register (libs svc) (sys_auth sys) (env_uuid env) (env_salt env)
             (env_now env) (rr_Email req) (rr_Password req) (rr_Name req) of
        (Inl err, db') \<Rightarrow> (Inl err, sys\<lparr>sys_auth := db'\<rparr>)
      | (Inr userID, db') \<Rightarrow>
          (case userClient_CreateUser (sys\<lparr>sys_auth := db'\<rparr>) env
                  \<lparr>cu_UserId = userID, cu_Email = rr_Email req, cu_Name = rr_Name req,
                   cu_Phone = []\<rparr> of
             (Inl err, sys') \<Rightarrow> (Inl err, sys')
           | (Inr createUserResp, sys') \<Rightarrow>
               if ur_Error createUserResp \<noteq> []
               then (Inl (ErrorsNew (ur_Error createUserResp)), sys')
               else (Inr \<lparr>rs_UserId = userID, rs_Message = ''User registered successfully''\<rparr>,
                     sys')))"

definition AuthHandler_Login ::
  "AuthService \<Rightarrow> System \<Rightarrow> Env \<Rightarrow> pb_LoginRequest \<Rightarrow> error + pb_LoginResponse" where
  "AuthHandler_Login svc sys env req =
     (case AuthService_Login (libs svc) (jwtSecret svc) (sys_auth sys) (env_now env)
             (lr_Email req) (lr_Password req) of
        Inl err \<Rightarrow> Inl err
      | Inr token \<Rightarrow> Inr \<lparr>ls_Token = token, ls_UserId = [], ls_Name = []\<rparr>)"

definition AuthHandler_ValidateToken ::
  "AuthService \<Rightarrow> Env \<Rightarrow> string \<Rightarrow> pb_ValidateTokenResponse" where
  "AuthHandler_ValidateToken svc env token =
     (case AuthService_ValidateToken (libs svc) (jwtSecret svc) (env_now env) token of
        Inl err \<Rightarrow> \<lparr>vt_Valid = False, vt_UserId = [], vt_Error = Error err\<rparr>
      | Inr userID \<Rightarrow> \<lparr>vt_Valid = True, vt_UserId = userID, vt_Error = []\<rparr>)"

text \<open>
  The Identity Mirror call failed: the gRPC call returned an error, or the response
  carries an error message.
\<close>

definition mirror_failed :: "error + pb_UserResponse \<Rightarrow> bool" where
  "mirror_failed m = (case m of Inl err \<Rightarrow> True | Inr resp \<Rightarrow> ur_Error resp \<noteq> [])"

text \<open>The gateway's client of the auth service.\<close>

definition authClient_Register ::
  "AuthService \<Rightarrow> System \<Rightarrow> Env \<Rightarrow> pb_RegisterRequest
     \<Rightarrow> (error + pb_RegisterResponse) \<times> System" where
  "authClient_Register svc sys env req =
     (if \<not> auth_service_up sys then (Inl unavailable, sys)
      else (case AuthHandler_Register svc sys env req of
              (Inl err, sys') \<Rightarrow> (Inl (status_of_error err), sys')
            | (Inr resp, sys') \<Rightarrow> (Inr resp, sys')))"

definition authClient_Login ::
  "AuthService \<Rightarrow> System \<Rightarrow> Env \<Rightarrow> pb_LoginRequest \<Rightarrow> error + pb_LoginResponse" where
  "authClient_Login svc sys env req =
     (if \<not> auth_service_up sys then Inl unavailable
      else (case AuthHandler_Login svc sys env req of
              Inl err \<Rightarrow> Inl (status_of_error err)
            | Inr resp \<Rightarrow> Inr resp))"

definition authClient_ValidateToken ::
  "AuthService \<Rightarrow> Env \<Rightarrow> System \<Rightarrow> string \<Rightarrow> error + pb_ValidateTokenResponse" where
  "authClient_ValidateToken svc env sys token =
     (if \<not> auth_service_up sys then Inl unavailable
      else Inr (AuthHandler_ValidateToken svc env token))"

section \<open>API gateway: requests and responses\<close>

text \<open>
  A request body after \<open>io.ReadAll\<close> and \<open>json.Unmarshal\<close> into a request struct: the
  read failed; the bytes are not JSON, or are JSON of a kind that no struct takes (an
  array, a number, a string, a boolean); or they are an object, given by its members in
  the order of the text. The body \<open>null\<close> decodes like the empty object. A value is a
  string, a boolean, \<open>null\<close>, or of another kind.
\<close>

datatype json_value = JSONString string | JSONBool bool | JSONNull | JSONOther

datatype http_body = Unreadable | NotJSON | JSONObject "(string \<times> json_value) list"

text \<open>
  \<open>json.Unmarshal\<close> matches the key of a member with the name of a struct field without
  regard to case: two names match when their folded forms are equal. Folding maps an
  ASCII letter to its capital, the long s (U+017F, bytes C5 BF) to \<open>S\<close> and the Kelvin
  sign (U+212A, bytes E2 84 AA) to \<open>K\<close>. Every other rune folds to a rune outside ASCII;
  its bytes, all above 7F, are kept here as they are, which gives the same answer
  whenever one of the two names is ASCII, as every field name of the gateway is.
\<close>

definition toUpper :: "char \<Rightarrow> char" where
  "toUpper c =
     (case map_of (zip ''abcdefghijklmnopqrstuvwxyz'' ''ABCDEFGHIJKLMNOPQRSTUVWXYZ'') c of
        Some u \<Rightarrow> u
      | None \<Rightarrow> c)"

fun foldName :: "string \<Rightarrow> string" where
  "foldName [] = []"
| "foldName (c # cs) =
     (if c = CHR 0xC5 \<and> take 1 cs = [CHR 0xBF] then CHR ''S'' # foldName (drop 1 cs)
      else if c = CHR 0xE2 \<and> take 2 cs = [CHR 0x84, CHR 0xAA]
        then CHR ''K'' # foldName (drop 2 cs)
      else toUpper c # foldName cs)"

definition key_matches :: "string \<Rightarrow> string \<Rightarrow> bool" where
  "key_matches key name \<longleftrightarrow> foldName key = foldName name"

text \<open>
  The members are decoded in order, so of several members that match one field the last
  one with a value of the field's type wins. A \<open>null\<close> leaves the field as it is; a field
  that no member sets keeps Go's zero value. A value of the wrong kind for its field
  makes \<open>json.Unmarshal\<close> return an error. Members that match no field are skipped.
\<close>

definition json_field :: "(string \<times> json_value) list \<Rightarrow> string \<Rightarrow> string" where
  "json_field obj name =
     foldl (\<lambda>cur (k, v). if key_matches k name
                           then (case v of JSONString s \<Rightarrow> s | _ \<Rightarrow> cur) else cur)
       [] obj"

definition json_bool_field :: "(string \<times> json_value) list \<Rightarrow> string \<Rightarrow> bool" where
  "json_bool_field obj name =
     foldl (\<lambda>cur (k, v). if key_matches k name
                           then (case v of JSONBool b \<Rightarrow> b | _ \<Rightarrow> cur) else cur)
       False obj"

definition json_type_error ::
  "string list \<Rightarrow> string list \<Rightarrow> (string \<times> json_value) list \<Rightarrow> bool" where
  "json_type_error string_fields bool_fields obj =
     list_ex (\<lambda>(k, v).
         (list_ex (key_matches k) string_fields
            \<and> (case v of JSONString s \<Rightarrow> False | JSONNull \<Rightarrow> False | _ \<Rightarrow> True))
       \<or> (list_ex (key_matches k) bool_fields
            \<and> (case v of JSONBool b \<Rightarrow> False | JSONNull \<Rightarrow> False | _ \<Rightarrow> True)))
       obj"

text \<open>
  What a handler sees of a request: the headers, the \<open>id\<close> parameter of the route
  (\<open>chi.URLParam\<close>, empty when the route has none), the value stored in the request context under
  \<open>userIDKey\<close>, and the body.
\<close>

record Request =
  Header :: "string \<rightharpoonup> string"
  URLParam_id :: string
  ctx_user_id :: "string option"
  Body :: http_body

record LoginResponse =
  lg_Token :: string
  lg_UserID :: string
  lg_Name :: string

record RegisterResponse =
  rg_UserID :: string
  rg_Message :: string

record UserResponse =
  us_ID :: string
  us_Email :: string
  us_Name :: string
  us_Phone :: string

record AddressResponse =
  as_ID :: string
  as_Street :: string
  as_City :: string
  as_State :: string
  as_PostalCode :: string
  as_Country :: string
  as_IsDefault :: bool

datatype payload =
    Text string
  | RegisterJSON RegisterResponse
  | LoginJSON LoginResponse
  | UserJSON UserResponse
  | DeleteUserJSON string
  | AddressJSON AddressResponse
  | AddressesJSON "AddressResponse list"

record Response =
  status :: nat
  payload :: payload

text \<open>\<open>http.Error\<close> writes the message and a newline.\<close>

definition http_Error :: "string \<Rightarrow> nat \<Rightarrow> Response" where
  "http_Error msg code = \<lparr>status = code, payload = Text (msg @ [CHR 0x0A])\<rparr>"

text \<open>
  A handler that dereferences a nil pointer panics; the server recovers, logs, and closes
  the connection without a response.
\<close>

definition handler_panic :: Response where
  "handler_panic = \<lparr>status = 0, payload = Text []\<rparr>"

definition Header_Get :: "Request \<Rightarrow> string \<Rightarrow> string" where
  "Header_Get r k = (case Header r k of None \<Rightarrow> [] | Some v \<Rightarrow> v)"

subsection \<open>Package strings\<close>

definition HasPrefix :: "string \<Rightarrow> string \<Rightarrow> bool" where
  "HasPrefix s prefix = (length prefix \<le> length s \<and> take (length prefix) s = prefix)"

definition TrimPrefix :: "string \<Rightarrow> string \<Rightarrow> string" where
  "TrimPrefix s prefix = (if HasPrefix s prefix then drop (length prefix) s else s)"

text \<open>
  \<open>strings.TrimSpace\<close> removes the leading and trailing runes that \<open>unicode.IsSpace\<close>
  accepts. A Go string is a byte sequence; the runes are matched by their UTF-8
  encodings: tab to carriage return, space, U+0085, U+00A0, U+1680, U+2000 to U+200A,
  U+2028, U+2029, U+202F, U+205F, U+3000.
\<close>

definition space_runes :: "string list" where
  "space_runes =
     [[CHR 0x09], [CHR 0x0A], [CHR 0x0B], [CHR 0x0C], [CHR 0x0D], [CHR 0x20],
      [CHR 0xC2, CHR 0x85], [CHR 0xC2, CHR 0xA0], [CHR 0xE1, CHR 0x9A, CHR 0x80],
      [CHR 0xE2, CHR 0x80, CHR 0x80], [CHR 0xE2, CHR 0x80, CHR 0x81],
      [CHR 0xE2, CHR 0x80, CHR 0x82], [CHR 0xE2, CHR 0x80, CHR 0x83],
      [CHR 0xE2, CHR 0x80, CHR 0x84], [CHR 0xE2, CHR 0x80, CHR 0x85],
      [CHR 0xE2, CHR 0x80, CHR 0x86], [CHR 0xE2, CHR 0x80, CHR 0x87],
      [CHR 0xE2, CHR 0x80, CHR 0x88], [CHR 0xE2, CHR 0x80, CHR 0x89],
      [CHR 0xE2, CHR 0x80, CHR 0x8A], [CHR 0xE2, CHR 0x80, CHR 0xA8],
      [CHR 0xE2, CHR 0x80, CHR 0xA9], [CHR 0xE2, CHR 0x80, CHR 0xAF],
      [CHR 0xE2, CHR 0x81, CHR 0x9F], [CHR 0xE3, CHR 0x80, CHR 0x80]]"

function trim_runes :: "string list \<Rightarrow> string \<Rightarrow> string" where
  "trim_runes ps s =
     (case find (\<lambda>p. p \<noteq> [] \<and> take (length p) s = p) ps of
        None \<Rightarrow> s
      | Some p \<Rightarrow> trim_runes ps (drop (length p) s))"
  by pat_completeness auto
termination
proof (relation "measure (\<lambda>(ps, s). length s)")
  show "wf (measure (\<lambda>(ps, s). length s))" by simp
next
  fix ps :: "string list" and s p :: string
  assume "find (\<lambda>p. p \<noteq> [] \<and> take (length p) s = p) ps = Some p"
  then have "p \<noteq> []" and "take (length p) s = p"
    by (auto simp: find_Some_iff)
  then have "s \<noteq> []" by auto
  with \<open>p \<noteq> []\<close> show "((ps, drop (length p) s), (ps, s)) \<in> measure (\<lambda>(ps, s). length s)"
    by simp
qed

declare trim_runes.simps [simp del]

definition TrimSpace :: "string \<Rightarrow> string" where
  "TrimSpace s = rev (trim_runes (map rev space_runes) (rev (trim_runes space_runes s)))"

section \<open>Request Gate (api-gateway/internal/middleware/auth.go)\<close>

definition bearerPrefix :: string where
  "bearerPrefix = ''Bearer ''"

definition WithContext_user_id :: "Request \<Rightarrow> string \<Rightarrow> Request" where
  "WithContext_user_id r userId = r\<lparr>ctx_user_id := Some userId\<rparr>"

text \<open>
  The middleware wraps the handler \<open>next\<close>. The client of the auth service is the first
  argument; handlers thread the state of the system.
\<close>

definition AuthMiddleware ::
  "(System \<Rightarrow> string \<Rightarrow> error + pb_ValidateTokenResponse)
     \<Rightarrow> (Request \<Rightarrow> System \<Rightarrow> Response \<times> System)
     \<Rightarrow> Request \<Rightarrow> System \<Rightarrow> Response \<times> System" where
  "AuthMiddleware authClient next r sys =
     (let authHeader = Header_Get r ''Authorization'' in
      if authHeader = [] then (http_Error ''Authorization header required'' 401, sys)
      else if \<not> HasPrefix authHeader bearerPrefix
        then (http_Error (''Authorization header must start with 'Bearer '' @ [CHR 0x27]) 401,
              sys)
      else (let token = TrimSpace (TrimPrefix authHeader bearerPrefix) in
            if token = [] then (http_Error ''Token cannot be empty'' 401, sys)
            else (case authClient sys token of
                    Inl err \<Rightarrow> (http_Error ''Failed to validate token'' 500, sys)
                  | Inr resp \<Rightarrow>
                      if \<not> vt_Valid resp
                      then (http_Error (''Invalid token: '' @ vt_Error resp) 401, sys)
                      else next (WithContext_user_id r (vt_UserId resp)) sys)))"

definition GetUserID :: "Request \<Rightarrow> string" where
  "GetUserID r = (case ctx_user_id r of Some userID \<Rightarrow> userID | None \<Rightarrow> [])"

section \<open>Resource Authorizer and user handlers (api-gateway/internal/handlers)\<close>

definition authorizeUserAccess :: "Request \<Rightarrow> error + string" where
  "authorizeUserAccess r =
     (let requestedID = URLParam_id r; authenticatedID = GetUserID r in
      if authenticatedID = [] then Inl (ErrorsNew ''no authenticated user found'')
      else if requestedID \<noteq> authenticatedID
        then Inl (ErrorsNew ''forbidden: cannot access other users' data'')
      else Inr requestedID)"

definition to_UserResponse :: "pb_User \<Rightarrow> UserResponse" where
  "to_UserResponse u =
     \<lparr>us_ID = pb_Id u, us_Email = pb_Email u, us_Name = pb_Name u, us_Phone = pb_Phone u\<rparr>"

definition to_AddressResponse :: "pb_Address \<Rightarrow> AddressResponse" where
  "to_AddressResponse a =
     \<lparr>as_ID = pa_Id a, as_Street = pa_Street a, as_City = pa_City a, as_State = pa_State a,
      as_PostalCode = pa_PostalCode a, as_Country = pa_Country a,
      as_IsDefault = pa_IsDefault a\<rparr>"

definition http_GetUser :: "Request \<Rightarrow> System \<Rightarrow> Response \<times> System" where
  "http_GetUser r sys =
     (case authorizeUserAccess r of
        Inl err \<Rightarrow> (http_Error (Error err) 403, sys)
      | Inr requestedUserID \<Rightarrow>
          (case userClient_GetUser sys requestedUserID of
             Inl err \<Rightarrow> (http_Error (''Failed to get user: '' @ Error err) 500, sys)
           | Inr grpcResp \<Rightarrow>
               if ur_Error grpcResp \<noteq> [] then (http_Error (ur_Error grpcResp) 404, sys)
               else (case ur_User grpcResp of
                       None \<Rightarrow> (handler_panic, sys)
                     | Some u \<Rightarrow>
                         (\<lparr>status = 200, payload = UserJSON (to_UserResponse u)\<rparr>, sys))))"

definition http_UpdateUser :: "Env \<Rightarrow> Request \<Rightarrow> System \<Rightarrow> Response \<times> System" where
  "http_UpdateUser env r sys =
     (case authorizeUserAccess r of
        Inl err \<Rightarrow> (http_Error (Error err) 403, sys)
      | Inr requestedUserID \<Rightarrow>
          (case Body r of
             Unreadable \<Rightarrow> (http_Error ''Failed to read request body'' 400, sys)
           | NotJSON \<Rightarrow> (http_Error ''Invalid JSON format'' 400, sys)
           | JSONObject obj \<Rightarrow>
               if json_type_error [''name'', ''phone''] [] obj
               then (http_Error ''Invalid JSON format'' 400, sys)
               else
               (let req_Name = json_field obj ''name''; req_Phone = json_field obj ''phone'' in
                if req_Name = [] \<and> req_Phone = []
                then (http_Error ''At least one field (name or phone) must be provided'' 400,
                      sys)
                else (case userClient_UpdateUser sys env
                             \<lparr>uu_UserId = requestedUserID, uu_Name = req_Name,
                              uu_Phone = req_Phone\<rparr> of
                        (Inl err, sys') \<Rightarrow>
                          (http_Error (''Failed to update user: '' @ Error err) 500, sys')
                      | (Inr grpcResp, sys') \<Rightarrow>
                          if ur_Error grpcResp \<noteq> []
                          then (http_Error (ur_Error grpcResp) 404, sys')
                          else (case ur_User grpcResp of
                                  None \<Rightarrow> (handler_panic, sys')
                                | Some u \<Rightarrow>
                                    (\<lparr>status = 200, payload = UserJSON (to_UserResponse u)\<rparr>,
                                     sys'))))))"

definition http_DeleteUser :: "Env \<Rightarrow> Request \<Rightarrow> System \<Rightarrow> Response \<times> System" where
  "http_DeleteUser env r sys =
     (case authorizeUserAccess r of
        Inl err \<Rightarrow> (http_Error (Error err) 403, sys)
      | Inr requestedUserID \<Rightarrow>
          (case userClient_DeleteUser sys env requestedUserID of
             (Inl err, sys') \<Rightarrow>
               (http_Error (''Failed to delete user: '' @ Error err) 500, sys')
           | (Inr grpcResp, sys') \<Rightarrow>
               if du_Error grpcResp \<noteq> [] then (http_Error (du_Error grpcResp) 404, sys')
               else (\<lparr>status = 200, payload = DeleteUserJSON ''User deleted successfully''\<rparr>,
                     sys')))"

definition http_AddAddress :: "Env \<Rightarrow> Request \<Rightarrow> System \<Rightarrow> Response \<times> System" where
  "http_AddAddress env r sys =
     (case authorizeUserAccess r of
        Inl err \<Rightarrow> (http_Error (Error err) 403, sys)
      | Inr requestedUserID \<Rightarrow>
          (case Body r of
             Unreadable \<Rightarrow> (http_Error ''Failed to read request body'' 400, sys)
           | NotJSON \<Rightarrow> (http_Error ''Invalid JSON format'' 400, sys)
           | JSONObject obj \<Rightarrow>
               if json_type_error [''street'', ''city'', ''state'', ''postal_code'', ''country'']
                    [''is_default''] obj
               then (http_Error ''Invalid JSON format'' 400, sys)
               else
               (let req_Street = json_field obj ''street''; req_City = json_field obj ''city'';
                    req_State = json_field obj ''state'';
                    req_PostalCode = json_field obj ''postal_code'';
                    req_Country = json_field obj ''country'';
                    req_IsDefault = json_bool_field obj ''is_default'' in
                if req_Street = [] \<or> req_City = [] \<or> req_Country = []
                then (http_Error ''Street, city, and country are required'' 400, sys)
                else (case userClient_AddAddress sys env
                             \<lparr>aa_UserId = requestedUserID, aa_Street = req_Street,
                              aa_City = req_City, aa_State = req_State,
                              aa_PostalCode = req_PostalCode, aa_Country = req_Country,
                              aa_IsDefault = req_IsDefault\<rparr> of
                        (Inl err, sys') \<Rightarrow>
                          (http_Error (''Failed to add address: '' @ Error err) 500, sys')
                      | (Inr grpcResp, sys') \<Rightarrow>
                          if ar_Error grpcResp \<noteq> []
                          then (http_Error (ar_Error grpcResp) 400, sys')
                          else (case ar_Address grpcResp of
                                  None \<Rightarrow> (handler_panic, sys')
                                | Some a \<Rightarrow>
                                    (\<lparr>status = 201,
                                      payload = AddressJSON (to_AddressResponse a)\<rparr>,
                                     sys'))))))"

definition http_GetAddresses :: "Request \<Rightarrow> System \<Rightarrow> Response \<times> System" where
  "http_GetAddresses r sys =
     (case authorizeUserAccess r of
        Inl err \<Rightarrow> (http_Error (Error err) 403, sys)
      | Inr requestedUserID \<Rightarrow>
          (case userClient_GetAddresses sys requestedUserID of
             Inl err \<Rightarrow> (http_Error (''Failed to get addresses: '' @ Error err) 500, sys)
           | Inr grpcResp \<Rightarrow>
               if ga_Error grpcResp \<noteq> [] then (http_Error (ga_Error grpcResp) 404, sys)
               else (\<lparr>status = 200,
                      payload = AddressesJSON (map to_AddressResponse (ga_Addresses grpcResp))\<rparr>,
                     sys)))"

section \<open>Auth handlers of the gateway (api-gateway/internal/handlers)\<close>

definition http_Register ::
  "AuthService \<Rightarrow> Env \<Rightarrow> Request \<Rightarrow> System \<Rightarrow> Response \<times> System" where
  "http_Register svc env r sys =
     (case Body r of
        Unreadable \<Rightarrow> (http_Error ''Failed to read request body'' 400, sys)
      | NotJSON \<Rightarrow> (http_Error ''Invalid JSON format'' 400, sys)
      | JSONObject obj \<Rightarrow>
          if json_type_error [''email'', ''password'', ''name''] [] obj
          then (http_Error ''Invalid JSON format'' 400, sys)
          else
          (let req_Email = json_field obj ''email''; req_Password = json_field obj ''password'';
               req_Name = json_field obj ''name'' in
           if req_Email = [] \<or> req_Name = [] \<or> req_Password = []
           then (http_Error ''Email,name and password are required'' 400, sys)
           else (case authClient_Register svc sys env
                        \<lparr>rr_Email = req_Email, rr_Password = req_Password,
                         rr_Name = req_Name\<rparr> of
                   (Inl err, sys') \<Rightarrow>
                     (http_Error (''Registration failed: '' @ Error err) 500, sys')
                 | (Inr grpcRes, sys') \<Rightarrow>
                     (\<lparr>status = 201,
                       payload = RegisterJSON \<lparr>rg_UserID = rs_UserId grpcRes,
                                               rg_Message = rs_Message grpcRes\<rparr>\<rparr>,
                      sys'))))"

definition http_Login ::
  "AuthService \<Rightarrow> Env \<Rightarrow> Request \<Rightarrow> System \<Rightarrow> Response \<times> System" where
  "http_Login svc env r sys =
     (case Body r of
        Unreadable \<Rightarrow> (http_Error ''Failed to read request body'' 400, sys)
      | NotJSON \<Rightarrow> (http_Error ''Failed to parse JSON'' 400, sys)
      | JSONObject obj \<Rightarrow>
          if json_type_error [''email'', ''password''] [] obj
          then (http_Error ''Failed to parse JSON'' 400, sys)
          else
          (let req_Email = json_field obj ''email''; req_Password = json_field obj ''password'' in
           if req_Email = [] \<or> req_Password = []
           then (http_Error ''Email and password are required'' 400, sys)
           else (case authClient_Login svc sys env
                        \<lparr>lr_Email = req_Email, lr_Password = req_Password\<rparr> of
                   Inl err \<Rightarrow> (http_Error (''Login failed: '' @ Error err) 401, sys)
                 | Inr grpcRes \<Rightarrow>
                     (\<lparr>status = 200,
                       payload = LoginJSON \<lparr>lg_Token = ls_Token grpcRes,
                                            lg_UserID = ls_UserId grpcRes,
                                            lg_Name = ls_Name grpcRes\<rparr>\<rparr>,
                      sys))))"

section \<open>Contracts of the imported packages, and a reference instance\<close>

text \<open>
  What the services rely on: a hash that bcrypt produced verifies against the password it
  was produced from, and a token that was just signed is well-formed and decodes to the
  claims, the signing string and the signature it was built from.
\<close>

definition bcrypt_sound :: "Libs \<Rightarrow> bool" where
  "bcrypt_sound lib \<longleftrightarrow>
     (\<forall>salt password cost h.
        bcrypt_GenerateFromPassword lib salt password cost = Inr h \<longrightarrow>
        bcrypt_CompareHashAndPassword lib h password = None)"

definition codec_sound :: "Libs \<Rightarrow> bool" where
  "codec_sound lib \<longleftrightarrow>
     (\<forall>userID now key.
        jwt_ParseUnverified lib
          (jwt_SigningString lib (login_claims userID now) @ ''.'' @
           jwt_HS256 lib (jwt_SigningString lib (login_claims userID now)) key)
        = Some (login_claims userID now, jwt_SigningString lib (login_claims userID now),
                jwt_HS256 lib (jwt_SigningString lib (login_claims userID now)) key))"

text \<open>
  A small instance of the package interface, used to run the services on concrete
  inputs. The hash is the reversed password, a dollar sign and the salt. The signing
  string holds the user id behind its length in unary and the expiry as a sign, hours
  and seconds in unary; the signature is the key, a hash sign and the signing string.
\<close>

definition ref_GenerateFromPassword :: "string \<Rightarrow> string \<Rightarrow> nat \<Rightarrow> error + string" where
  "ref_GenerateFromPassword salt password cost =
     (if length password > 72 then Inl (BcryptError ''bcrypt: password length exceeds 72 bytes'')
      else Inr (rev password @ CHR ''$'' # salt))"

definition ref_CompareHashAndPassword :: "string \<Rightarrow> string \<Rightarrow> error option" where
  "ref_CompareHashAndPassword h password =
     (if take (Suc (length password)) h = rev password @ [CHR ''$''] then None
      else Some (BcryptError
             ''crypto/bcrypt: hashedPassword is not the hash of the given password''))"

definition ref_SigningString :: "MapClaims \<Rightarrow> string" where
  "ref_SigningString claims =
     (case (claims ''user_id'', claims ''exp'') of
        (Some (StringClaim u), Some (NumberClaim e)) \<Rightarrow>
          replicate (length u) (CHR ''u'') @ CHR ''.'' # u @
          (if e < 0 then CHR ''-'' else CHR ''+'') #
          replicate (nat (\<bar>e\<bar> div 3600)) (CHR ''h'') @
          replicate (nat (\<bar>e\<bar> mod 3600)) (CHR ''s'')
      | _ \<Rightarrow> [])"

definition ref_HS256 :: "string \<Rightarrow> string \<Rightarrow> string" where
  "ref_HS256 signingString key = key @ CHR ''#'' # signingString"

definition ref_ParseUnverified :: "string \<Rightarrow> (MapClaims \<times> string \<times> string) option" where
  "ref_ParseUnverified tokenString =
     (let n = length (takeWhile (\<lambda>c. c = CHR ''u'') tokenString);
          r1 = drop n tokenString in
      case r1 of
        [] \<Rightarrow> None
      | d1 # r2 \<Rightarrow>
          (let u = take n r2; r3 = drop n r2 in
           case r3 of
             [] \<Rightarrow> None
           | sg # r4 \<Rightarrow>
               (let h = length (takeWhile (\<lambda>c. c = CHR ''h'') r4);
                    r5 = drop h r4;
                    s = length (takeWhile (\<lambda>c. c = CHR ''s'') r5);
                    r6 = drop s r5 in
                case r6 of
                  [] \<Rightarrow> None
                | d2 # g \<Rightarrow>
                    if d1 = CHR ''.'' \<and> d2 = CHR ''.'' \<and> length u = n
                         \<and> (sg = CHR ''+'' \<or> sg = CHR ''-'') \<and> s < 3600
                    then Some ([''user_id'' \<mapsto> StringClaim u,
                                ''exp'' \<mapsto> NumberClaim
                                   ((if sg = CHR ''-'' then - 1 else 1)
                                    * (int h * 3600 + int s))],
                               take (length tokenString - Suc (length g)) tokenString, g)
                    else None)))"

definition ref_libs :: Libs where
  "ref_libs =
     \<lparr>bcrypt_GenerateFromPassword = ref_GenerateFromPassword,
      bcrypt_CompareHashAndPassword = ref_CompareHashAndPassword,
      jwt_SigningString = ref_SigningString,
      jwt_HS256 = ref_HS256,
      jwt_ParseUnverified = ref_ParseUnverified\<rparr>"

definition ref_service :: AuthService where
  "ref_service = \<lparr>libs = ref_libs, jwtSecret = ''key''\<rparr>"

section \<open>Concrete inputs\<close>

text \<open>
  The account row that \<open>Register\<close> inserts, and the inputs on which the theorems below are
  run: a request environment; one registered account (Alice) and her profile; two tokens
  for Alice's id, one signed with the key of the reference service and one signed with
  another key; requests to the gate and to the handlers; and Bob, who is not registered.
\<close>

definition new_account :: "string \<Rightarrow> time \<Rightarrow> string \<Rightarrow> string \<Rightarrow> string \<Rightarrow> auth_User" where
  "new_account uuid now email hashed name =
     \<lparr>au_ID = uuid, au_Email = email, au_Password = hashed, au_Name = name,
      au_CreatedAt = now, au_LastLogin = zero_time\<rparr>"

definition test_env :: Env where
  "test_env = \<lparr>env_uuid = ''id-2'', env_uuid2 = ''id-3'', env_salt = ''salt'', env_now = 7200\<rparr>"

definition alice_row :: auth_User where
  "alice_row = \<lparr>au_ID = ''id-1'', au_Email = ''alice@example.com'',
      au_Password = ''!t3rceS$salt'', au_Name = ''Alice'', au_CreatedAt = 1000,
      au_LastLogin = zero_time\<rparr>"

definition alice_system :: System where
  "alice_system = \<lparr>sys_auth = \<lparr>auth_rows = [alice_row], auth_reachable = True\<rparr>,
      sys_user = \<lparr>user_rows = [], address_rows = [], user_reachable = True\<rparr>,
      auth_service_up = True, user_service_up = True\<rparr>"

definition good_token :: string where
  "good_token =
     ref_SigningString (login_claims ''id-1'' 3600) @ ''.'' @
     ref_HS256 (ref_SigningString (login_claims ''id-1'' 3600)) ''key''"

definition forged_token :: string where
  "forged_token =
     ref_SigningString (login_claims ''id-1'' 3600) @ ''.'' @
     ref_HS256 (ref_SigningString (login_claims ''id-1'' 3600)) ''other''"

definition login_request :: "string \<Rightarrow> string \<Rightarrow> Request" where
  "login_request email password =
     \<lparr>Header = Map.empty, URLParam_id = [], ctx_user_id = None,
      Body = JSONObject [(''email'', JSONString email), (''password'', JSONString password)]\<rparr>"

definition gate_request :: "string option \<Rightarrow> Request" where
  "gate_request h =
     \<lparr>Header = (case h of None \<Rightarrow> Map.empty | Some v \<Rightarrow> [''Authorization'' \<mapsto> v]),
      URLParam_id = ''id-1'', ctx_user_id = None,
      Body = JSONObject [(''name'', JSONString ''Alice B'')]\<rparr>"

definition self_request :: Request where
  "self_request = (gate_request None)\<lparr>ctx_user_id := Some ''id-1''\<rparr>"

definition other_request :: Request where
  "other_request = (gate_request None)\<lparr>URLParam_id := ''id-9'', ctx_user_id := Some ''id-1''\<rparr>"

definition bob_request :: pb_RegisterRequest where
  "bob_request = \<lparr>rr_Email = ''bob@example.com'', rr_Password = ''hunter2'', rr_Name = ''Bob''\<rparr>"

definition bob_row :: auth_User where
  "bob_row = new_account ''id-2'' 7200 ''bob@example.com'' ''2retnuh$salt'' ''Bob''"

definition down_system :: System where
  "down_system = alice_system\<lparr>user_service_up := False\<rparr>"

definition register_request :: "(string \<times> json_value) list \<Rightarrow> Request" where
  "register_request obj =
     \<lparr>Header = Map.empty, URLParam_id = [], ctx_user_id = None, Body = JSONObject obj\<rparr>"

definition alice_profile :: profile_User where
  "alice_profile = \<lparr>pu_ID = ''id-1'', pu_Email = ''alice@example.com'', pu_Name = ''Alice'',
      pu_Phone = ''+1234567890'', pu_CreatedAt = 1000, pu_UpdatedAt = 1000,
      pu_DeletedAt = None\<rparr>"

definition full_system :: System where
  "full_system = alice_system\<lparr>sys_user := \<lparr>user_rows = [alice_profile], address_rows = [], user_reachable = True\<rparr>\<rparr>"

section \<open>Decoding of request bodies: properties\<close>

lemma foldName_email: "foldName ''email'' = ''EMAIL''"
  by (simp add: toUpper_def)

lemma foldName_password: "foldName ''password'' = ''PASSWORD''"
  by (simp add: toUpper_def)

lemma foldName_name: "foldName ''name'' = ''NAME''"
  by (simp add: toUpper_def)

lemma foldName_phone: "foldName ''phone'' = ''PHONE''"
  by (simp add: toUpper_def)

lemmas foldName_fields = foldName_email foldName_password foldName_name foldName_phone

lemma foldl_field_absent:
  "(\<forall>(k, v) \<in> set obj. \<not> key_matches k name) \<Longrightarrow>
   foldl (\<lambda>cur (k, v). if key_matches k name
                         then (case v of JSONString s \<Rightarrow> s | _ \<Rightarrow> cur) else cur) cur obj = cur"
  by (induction obj arbitrary: cur) auto

lemma json_field_absent:
  "(\<forall>(k, v) \<in> set obj. \<not> key_matches k name) \<Longrightarrow> json_field obj name = []"
  unfolding json_field_def by (rule foldl_field_absent)

lemma login_request_decodes:
  "\<not> json_type_error [''email'', ''password''] []
       [(''email'', JSONString email), (''password'', JSONString password)]"
  "json_field [(''email'', JSONString email), (''password'', JSONString password)] ''email''
     = email"
  "json_field [(''email'', JSONString email), (''password'', JSONString password)] ''password''
     = password"
  by (simp_all add: json_type_error_def json_field_def key_matches_def foldName_fields)

lemma name_only_decodes:
  "\<not> json_type_error [''name'', ''phone''] [] [(''name'', JSONString n)]"
  "json_field [(''name'', JSONString n)] ''name'' = n"
  "json_field [(''name'', JSONString n)] ''phone'' = []"
  by (simp_all add: json_type_error_def json_field_def key_matches_def foldName_fields)

lemma case_variant_keys_decode:
  "json_field [(''EMAIL'', JSONString ''bob@example.com''), (''Password'', JSONString ''hunter2''),
               (''NaMe'', JSONString ''Bob'')] ''email'' = ''bob@example.com''"
  "json_field [(''EMAIL'', JSONString ''bob@example.com''), (''Password'', JSONString ''hunter2''),
               (''NaMe'', JSONString ''Bob'')] ''password'' = ''hunter2''"
  "json_field [(''EMAIL'', JSONString ''bob@example.com''), (''Password'', JSONString ''hunter2''),
               (''NaMe'', JSONString ''Bob'')] ''name'' = ''Bob''"
  "json_field [(''name'', JSONString ''Alice B''), (''Phone'', JSONString ''555'')] ''phone''
     = ''555''"
  "json_field [(''pa'' @ [CHR 0xC5, CHR 0xBF, CHR 0xC5, CHR 0xBF] @ ''word'', JSONString ''x'')]
     ''password'' = ''x''"
  by (simp_all add: json_field_def key_matches_def foldName_fields toUpper_def)

section \<open>The reference instance meets the contracts\<close>

lemma ref_bcrypt_sound: "bcrypt_sound ref_libs"
  by (simp add: bcrypt_sound_def ref_libs_def ref_GenerateFromPassword_def
      ref_CompareHashAndPassword_def split: if_splits)

lemma takeWhile_run: "y \<noteq> x \<Longrightarrow> takeWhile (\<lambda>c. c = x) (replicate n x @ y # ys) = replicate n x"
  by (induction n) simp_all

lemma takeWhile_run2:
  "y \<noteq> x \<Longrightarrow> z \<noteq> x \<Longrightarrow>
   takeWhile (\<lambda>c. c = x) (replicate n x @ replicate m y @ z # ys) = replicate n x"
  by (induction n) (simp_all, cases m, simp_all)

lemma ref_SigningString_login:
  "ref_SigningString (login_claims u now) =
     replicate (length u) (CHR ''u'') @ CHR ''.'' # u @
     (if now + 86400 < 0 then CHR ''-'' else CHR ''+'') #
     replicate (nat (\<bar>now + 86400\<bar> div 3600)) (CHR ''h'') @
     replicate (nat (\<bar>now + 86400\<bar> mod 3600)) (CHR ''s'')"
  by (simp add: ref_SigningString_def login_claims_def)

lemma ref_parse_frame:
  assumes "s < 3600" "sg = CHR ''+'' \<or> sg = CHR ''-''"
  shows "ref_ParseUnverified
      (replicate (length u) (CHR ''u'') @ CHR ''.'' # u @ sg #
       replicate h (CHR ''h'') @ replicate s (CHR ''s'') @ CHR ''.'' # g)
    = Some ([''user_id'' \<mapsto> StringClaim u,
             ''exp'' \<mapsto> NumberClaim ((if sg = CHR ''-'' then - 1 else 1) * (int h * 3600 + int s))],
            replicate (length u) (CHR ''u'') @ CHR ''.'' # u @ sg #
            replicate h (CHR ''h'') @ replicate s (CHR ''s''), g)"
  using assms
  by (auto simp add: ref_ParseUnverified_def takeWhile_run takeWhile_run2 Let_def)

lemma ref_codec_sound: "codec_sound ref_libs"
proof -
  have "ref_ParseUnverified (ref_SigningString (login_claims u now) @ CHR ''.'' # ref_HS256 (ref_SigningString (login_claims u now)) key)
      = Some (login_claims u now, ref_SigningString (login_claims u now),
              ref_HS256 (ref_SigningString (login_claims u now)) key)" for u now key
  proof -
    define e where "e = now + 86400"
    define g where "g = ref_HS256 (ref_SigningString (login_claims u now)) key"
    define sg where "sg = (if e < 0 then CHR ''-'' else CHR ''+'')"
    define h where "h = nat (\<bar>e\<bar> div 3600)"
    define s where "s = nat (\<bar>e\<bar> mod 3600)"
    have ss: "ref_SigningString (login_claims u now) =
        replicate (length u) (CHR ''u'') @ CHR ''.'' # u @ sg # replicate h (CHR ''h'') @ replicate s (CHR ''s'')"
      by (simp add: ref_SigningString_login e_def sg_def h_def s_def)
    have s: "s < 3600" by (simp add: s_def)
    have sg: "sg = CHR ''+'' \<or> sg = CHR ''-''" by (simp add: sg_def)
    have abs_e: "int h * 3600 + int s = \<bar>e\<bar>"
    proof -
      have "0 \<le> \<bar>e\<bar> div 3600" and "0 \<le> \<bar>e\<bar> mod 3600"
        by (simp_all add: pos_imp_zdiv_nonneg_iff)
      then have "int h = \<bar>e\<bar> div 3600" and "int s = \<bar>e\<bar> mod 3600"
        unfolding h_def s_def by simp_all
      then show ?thesis by simp
    qed
    have val: "(if sg = CHR ''-'' then - 1 else 1) * (int h * 3600 + int s) = e"
      unfolding abs_e by (simp add: sg_def)
    have lc: "login_claims u now = [''user_id'' \<mapsto> StringClaim u, ''exp'' \<mapsto> NumberClaim e]"
      by (simp add: login_claims_def e_def)
    show ?thesis
      unfolding g_def [symmetric] unfolding ss
      using ref_parse_frame [OF s sg, of u h g]
      by (simp add: val lc)
  qed
  then show ?thesis
    by (simp add: codec_sound_def ref_libs_def)
qed

section \<open>Credential Service: properties\<close>

lemma find_append_new:
  "\<not> list_ex P xs \<Longrightarrow> P y \<Longrightarrow> find P (xs @ [y]) = Some y"
  by (induction xs) simp_all

lemma find_None_list_ex: "find P xs = None \<longleftrightarrow> \<not> list_ex P xs"
  by (induction xs) simp_all

lemma Register_success:
  assumes "auth_reachable db"
    and "\<not> list_ex (\<lambda>r. au_ID r = uuid \<or> au_Email r = email) (auth_rows db)"
    and "bcrypt_GenerateFromPassword lib salt password bcrypt_DefaultCost = Inr h"
  shows "AuthService_Register lib db uuid salt now email password name =
           (Inr uuid, db\<lparr>auth_rows := auth_rows db @ [new_account uuid now email h name]\<rparr>)"
proof -
  from assms(2) have "\<not> list_ex (\<lambda>r. au_Email r = email) (auth_rows db)"
    by (auto simp: list_ex_iff)
  then have "auth_GetUserByEmail db email = Inr None"
    using assms(1) by (simp add: auth_GetUserByEmail_def find_None_list_ex)
  then show ?thesis
    using assms
    by (simp add: AuthService_Register_def auth_CreateUser_def new_account_def Let_def)
qed

lemma Login_after_insert:
  assumes "auth_reachable db"
    and "\<not> list_ex (\<lambda>r. au_Email r = email) (auth_rows db)"
    and "bcrypt_CompareHashAndPassword lib h password = None"
  shows "AuthService_Login lib secret
           (db\<lparr>auth_rows := auth_rows db @ [new_account uuid t0 email h name]\<rparr>) now email password
         = jwt_SignedString lib secret (login_claims uuid now)"
proof -
  have "auth_GetUserByEmail (db\<lparr>auth_rows := auth_rows db @ [new_account uuid t0 email h name]\<rparr>) email
        = Inr (Some (new_account uuid t0 email h name))"
    using assms(1,2) by (simp add: auth_GetUserByEmail_def find_append_new new_account_def)
  then show ?thesis
    using assms(3)
    by (simp add: AuthService_Login_def new_account_def jwt_SignedString_def Let_def)
qed

lemma ValidateToken_signed:
  assumes "codec_sound lib" and "t < now + 24 * 3600"
    and "jwt_SignedString lib secret (login_claims uid now) = Inr token"
  shows "AuthService_ValidateToken lib secret t token = Inr uid"
proof -
  define sstr where "sstr = jwt_SigningString lib (login_claims uid now)"
  have tok: "token = sstr @ ''.'' @ jwt_HS256 lib sstr secret"
    using assms(3) by (simp add: jwt_SignedString_def sstr_def Let_def)
  have "jwt_ParseUnverified lib token = Some (login_claims uid now, sstr, jwt_HS256 lib sstr secret)"
    using assms(1) unfolding codec_sound_def tok sstr_def by blast
  moreover have "login_claims uid now ''exp'' = Some (NumberClaim (now + 24 * 3600))"
    and "login_claims uid now ''user_id'' = Some (StringClaim uid)"
    by (simp_all add: login_claims_def)
  ultimately show ?thesis
    using assms(2) by (simp add: AuthService_ValidateToken_def jwt_Parse_def)
qed

text \<open>
  C1. Register, then Login with the same email and password, then ValidateToken on the
  token of Login: all three succeed, and ValidateToken returns the account id that
  Register returned. The inputs are those on which Register can succeed: the store
  answers, the email is not registered, the new UUID is not in use, and bcrypt accepts
  the password. The token is checked before its expiry, 24 hours after Login.
\<close>

theorem register_login_validate_roundtrip:
  assumes "bcrypt_sound lib" and "codec_sound lib"
    and "auth_reachable db"
    and "\<not> list_ex (\<lambda>r. au_ID r = uuid \<or> au_Email r = email) (auth_rows db)"
    and "bcrypt_GenerateFromPassword lib salt password bcrypt_DefaultCost = Inr h"
    and "t < t1 + 24 * 3600"
  shows "\<exists>db' token.
           AuthService_Register lib db uuid salt t0 email password name = (Inr uuid, db')
         \<and> AuthService_Login lib secret db' t1 email password = Inr token
         \<and> AuthService_ValidateToken lib secret t token = Inr uuid"
proof -
  let ?db' = "db\<lparr>auth_rows := auth_rows db @ [new_account uuid t0 email h name]\<rparr>"
  have reg: "AuthService_Register lib db uuid salt t0 email password name = (Inr uuid, ?db')"
    using assms(3,4,5) by (rule Register_success)
  have cmp: "bcrypt_CompareHashAndPassword lib h password = None"
    using assms(1,5) unfolding bcrypt_sound_def by blast
  from assms(4) have fresh: "\<not> list_ex (\<lambda>r. au_Email r = email) (auth_rows db)"
    by (auto simp: list_ex_iff)
  have login: "AuthService_Login lib secret ?db' t1 email password
               = jwt_SignedString lib secret (login_claims uuid t1)"
    using assms(3) fresh cmp by (rule Login_after_insert)
  obtain token where tok: "jwt_SignedString lib secret (login_claims uuid t1) = Inr token"
    by (simp add: jwt_SignedString_def Let_def)
  have "AuthService_ValidateToken lib secret t token = Inr uuid"
    using assms(2,6) tok by (rule ValidateToken_signed)
  with reg login tok show ?thesis by auto
qed

text \<open>
  The round trip on the reference instance: Alice registers at time 1000, logs in at 2000
  and presents the token at 3000.
\<close>

theorem register_login_validate_roundtrip_witness:
  "\<exists>db' token.
     AuthService_Register ref_libs \<lparr>auth_rows = [], auth_reachable = True\<rparr> ''id-1'' ''salt'' 1000
       ''alice@example.com'' ''Secr3t!'' ''Alice'' = (Inr ''id-1'', db')
   \<and> AuthService_Login ref_libs ''key'' db' 2000 ''alice@example.com'' ''Secr3t!'' = Inr token
   \<and> AuthService_ValidateToken ref_libs ''key'' 3000 token = Inr ''id-1''"
proof -
  have gen: "bcrypt_GenerateFromPassword ref_libs ''salt'' ''Secr3t!'' bcrypt_DefaultCost
             = Inr (rev ''Secr3t!'' @ CHR ''$'' # ''salt'')"
    by (simp add: ref_libs_def ref_GenerateFromPassword_def)
  show ?thesis
    by (rule register_login_validate_roundtrip
        [OF ref_bcrypt_sound ref_codec_sound _ _ gen]) simp_all
qed

text \<open>
  C2. Login with an email that no account has, and Login with the email of an account
  and a password that bcrypt does not accept for its hash, return the same error, made
  by \<open>errors.New\<close> with the message \<open>invalid credentials\<close>; the gRPC handler returns the
  same result in both cases, and the gateway answers both login requests with status 401
  and the same body.
\<close>

theorem login_failures_indistinguishable:
  assumes "auth_GetUserByEmail (sys_auth sys1) email1 = Inr None"
    and "auth_GetUserByEmail (sys_auth sys2) email2 = Inr (Some user)"
    and "bcrypt_CompareHashAndPassword (libs svc) (au_Password user) password2 = Some err"
  shows "AuthService_Login (libs svc) (jwtSecret svc) (sys_auth sys1) t1 email1 password1
           = Inl (ErrorsNew ''invalid credentials'')
       \<and> AuthService_Login (libs svc) (jwtSecret svc) (sys_auth sys2) t2 email2 password2
           = Inl (ErrorsNew ''invalid credentials'')
       \<and> AuthHandler_Login svc sys1 env1 \<lparr>lr_Email = email1, lr_Password = password1\<rparr>
           = AuthHandler_Login svc sys2 env2 \<lparr>lr_Email = email2, lr_Password = password2\<rparr>
       \<and> (auth_service_up sys1 \<and> auth_service_up sys2
            \<and> email1 \<noteq> [] \<and> password1 \<noteq> [] \<and> email2 \<noteq> [] \<and> password2 \<noteq> [] \<longrightarrow>
           fst (http_Login svc env1 (login_request email1 password1) sys1)
             = http_Error ''Login failed: rpc error: code = Unknown desc = invalid credentials'' 401
         \<and> fst (http_Login svc env2 (login_request email2 password2) sys2)
             = http_Error ''Login failed: rpc error: code = Unknown desc = invalid credentials'' 401)"
proof -
  have 1: "AuthService_Login (libs svc) (jwtSecret svc) (sys_auth sys1) t1 email1 password1
           = Inl (ErrorsNew ''invalid credentials'')" for t1
    using assms(1) by (simp add: AuthService_Login_def)
  have 2: "AuthService_Login (libs svc) (jwtSecret svc) (sys_auth sys2) t2 email2 password2
           = Inl (ErrorsNew ''invalid credentials'')" for t2
    using assms(2,3) by (simp add: AuthService_Login_def)
  have 3: "AuthHandler_Login svc sys1 env1 \<lparr>lr_Email = email1, lr_Password = password1\<rparr>
           = AuthHandler_Login svc sys2 env2 \<lparr>lr_Email = email2, lr_Password = password2\<rparr>"
    by (simp add: AuthHandler_Login_def 1 2)
  have 4: "fst (http_Login svc env1 (login_request email1 password1) sys1)
             = http_Error ''Login failed: rpc error: code = Unknown desc = invalid credentials'' 401"
    if "auth_service_up sys1" "email1 \<noteq> []" "password1 \<noteq> []"
    using that
    by (simp add: http_Login_def login_request_def login_request_decodes authClient_Login_def
        AuthHandler_Login_def 1)
  have 5: "fst (http_Login svc env2 (login_request email2 password2) sys2)
             = http_Error ''Login failed: rpc error: code = Unknown desc = invalid credentials'' 401"
    if "auth_service_up sys2" "email2 \<noteq> []" "password2 \<noteq> []"
    using that
    by (simp add: http_Login_def login_request_def login_request_decodes authClient_Login_def
        AuthHandler_Login_def 2)
  from 1 2 3 4 5 show ?thesis by blast
qed

text \<open>
  With Alice registered: an unknown email (Bob's) and a wrong password for Alice.
\<close>

theorem login_failures_indistinguishable_witness:
  "AuthService_Login (libs ref_service) (jwtSecret ref_service) (sys_auth alice_system) 2000
      ''bob@example.com'' ''Secr3t!'' = Inl (ErrorsNew ''invalid credentials'')
   \<and> AuthService_Login (libs ref_service) (jwtSecret ref_service) (sys_auth alice_system) 2000
      ''alice@example.com'' ''guess'' = Inl (ErrorsNew ''invalid credentials'')
   \<and> AuthHandler_Login ref_service alice_system test_env
        \<lparr>lr_Email = ''bob@example.com'', lr_Password = ''Secr3t!''\<rparr>
     = AuthHandler_Login ref_service alice_system test_env
        \<lparr>lr_Email = ''alice@example.com'', lr_Password = ''guess''\<rparr>
   \<and> fst (http_Login ref_service test_env (login_request ''bob@example.com'' ''Secr3t!'')
          alice_system)
     = http_Error ''Login failed: rpc error: code = Unknown desc = invalid credentials'' 401
   \<and> fst (http_Login ref_service test_env (login_request ''alice@example.com'' ''guess'')
          alice_system)
     = http_Error ''Login failed: rpc error: code = Unknown desc = invalid credentials'' 401"
proof -
  have unknown: "auth_GetUserByEmail (sys_auth alice_system) ''bob@example.com'' = Inr None"
    by (simp add: auth_GetUserByEmail_def alice_system_def alice_row_def)
  have known: "auth_GetUserByEmail (sys_auth alice_system) ''alice@example.com'' = Inr (Some alice_row)"
    by (simp add: auth_GetUserByEmail_def alice_system_def alice_row_def)
  have wrong: "bcrypt_CompareHashAndPassword (libs ref_service) (au_Password alice_row) ''guess''
      = Some (BcryptError ''crypto/bcrypt: hashedPassword is not the hash of the given password'')"
    by (simp add: ref_service_def ref_libs_def ref_CompareHashAndPassword_def alice_row_def)
  have up: "auth_service_up alice_system \<and> auth_service_up alice_system
      \<and> ''bob@example.com'' \<noteq> [] \<and> ''Secr3t!'' \<noteq> []
      \<and> ''alice@example.com'' \<noteq> [] \<and> ''guess'' \<noteq> []"
    by (simp add: alice_system_def)
  note L = login_failures_indistinguishable [OF unknown known wrong,
      where ?t1.0 = 2000 and ?t2.0 = 2000 and ?password1.0 = "''Secr3t!''"
        and ?env1.0 = test_env and ?env2.0 = test_env]
  note H = L [THEN conjunct2, THEN conjunct2, THEN conjunct2, THEN mp, OF up]
  show ?thesis
    by (intro conjI)
       (rule L [THEN conjunct1], rule L [THEN conjunct2, THEN conjunct1],
        rule L [THEN conjunct2, THEN conjunct2, THEN conjunct1],
        rule H [THEN conjunct1], rule H [THEN conjunct2])
qed

text \<open>
  C3. ValidateToken fails on a malformed token, on a token whose signature is not the
  one computed from its signing string with the service's secret, and on a token whose
  \<open>exp\<close> is not after the current time, even when the signature is right. When it returns
  a user id, the token is well-formed, carries the signature computed with the secret,
  has no expiry in the past, and the id is its \<open>user_id\<close> claim.
\<close>

theorem ValidateToken_rejects_and_accepts:
  "(jwt_ParseUnverified lib token = None
      \<longrightarrow> isl (AuthService_ValidateToken lib secret now token))
 \<and> (jwt_ParseUnverified lib token = Some (claims, sstr, sig) \<and> sig \<noteq> jwt_HS256 lib sstr secret
      \<longrightarrow> isl (AuthService_ValidateToken lib secret now token))
 \<and> (jwt_ParseUnverified lib token = Some (claims, sstr, sig)
        \<and> claims ''exp'' = Some (NumberClaim e) \<and> e \<le> now
      \<longrightarrow> isl (AuthService_ValidateToken lib secret now token))
 \<and> (AuthService_ValidateToken lib secret now token = Inr userID
      \<longrightarrow> (\<exists>claims sstr.
             jwt_ParseUnverified lib token = Some (claims, sstr, jwt_HS256 lib sstr secret)
           \<and> (\<forall>e. claims ''exp'' = Some (NumberClaim e) \<longrightarrow> now < e)
           \<and> claims ''user_id'' = Some (StringClaim userID)))"
  by (auto simp add: AuthService_ValidateToken_def jwt_Parse_def
      split: option.splits claim_value.splits if_splits sum.splits)

lemma ref_parse_signed:
  "jwt_ParseUnverified ref_libs
     (ref_SigningString (login_claims u now) @ ''.'' @
      ref_HS256 (ref_SigningString (login_claims u now)) key)
   = Some (login_claims u now, ref_SigningString (login_claims u now),
           ref_HS256 (ref_SigningString (login_claims u now)) key)"
  using ref_codec_sound unfolding codec_sound_def
  by (simp add: ref_libs_def)

text \<open>
  The four cases on the reference instance: a string that is no token, Alice's token
  signed with another key, Alice's token at its expiry time 90000, and Alice's token in
  time.
\<close>

theorem ValidateToken_rejects_and_accepts_witness:
  "isl (AuthService_ValidateToken ref_libs ''key'' 7200 ''garbage'')
 \<and> isl (AuthService_ValidateToken ref_libs ''key'' 7200 forged_token)
 \<and> isl (AuthService_ValidateToken ref_libs ''key'' 90000 good_token)
 \<and> AuthService_ValidateToken ref_libs ''key'' 7200 good_token = Inr ''id-1''
 \<and> (\<exists>claims sstr.
        jwt_ParseUnverified ref_libs good_token = Some (claims, sstr, jwt_HS256 ref_libs sstr ''key'')
      \<and> (\<forall>e. claims ''exp'' = Some (NumberClaim e) \<longrightarrow> 7200 < e)
      \<and> claims ''user_id'' = Some (StringClaim ''id-1''))"
proof -
  let ?c = "login_claims ''id-1'' 3600"
  let ?s = "ref_SigningString ?c"
  have malformed: "jwt_ParseUnverified ref_libs ''garbage'' = None"
    by (simp add: ref_libs_def ref_ParseUnverified_def)
  have forged: "jwt_ParseUnverified ref_libs forged_token = Some (?c, ?s, ref_HS256 ?s ''other'')"
    unfolding forged_token_def by (rule ref_parse_signed)
  have differs: "ref_HS256 ?s ''other'' \<noteq> jwt_HS256 ref_libs ?s ''key''"
    by (simp add: ref_libs_def ref_HS256_def)
  have good: "jwt_ParseUnverified ref_libs good_token = Some (?c, ?s, ref_HS256 ?s ''key'')"
    unfolding good_token_def by (rule ref_parse_signed)
  have exp: "?c ''exp'' = Some (NumberClaim 90000)"
    by (simp add: login_claims_def)
  have signed: "jwt_SignedString ref_libs ''key'' ?c = Inr good_token"
    by (simp add: jwt_SignedString_def good_token_def ref_libs_def Let_def)
  have ok: "AuthService_ValidateToken ref_libs ''key'' 7200 good_token = Inr ''id-1''"
    by (rule ValidateToken_signed [OF ref_codec_sound _ signed]) simp
  note V = ValidateToken_rejects_and_accepts
  have 1: "isl (AuthService_ValidateToken ref_libs ''key'' 7200 ''garbage'')"
    using V [where lib = ref_libs and token = "''garbage''" and secret = "''key''" and now = 7200]
      malformed by blast
  have 2: "isl (AuthService_ValidateToken ref_libs ''key'' 7200 forged_token)"
    using V [where lib = ref_libs and token = forged_token and claims = ?c and sstr = ?s
        and sig = "ref_HS256 ?s ''other''" and secret = "''key''" and now = 7200]
      forged differs by blast
  have 3: "isl (AuthService_ValidateToken ref_libs ''key'' 90000 good_token)"
    using V [where lib = ref_libs and token = good_token and claims = ?c and sstr = ?s
        and sig = "ref_HS256 ?s ''key''" and secret = "''key''" and now = 90000 and e = 90000]
      good exp by simp
  have 4: "\<exists>claims sstr.
        jwt_ParseUnverified ref_libs good_token = Some (claims, sstr, jwt_HS256 ref_libs sstr ''key'')
      \<and> (\<forall>e. claims ''exp'' = Some (NumberClaim e) \<longrightarrow> 7200 < e)
      \<and> claims ''user_id'' = Some (StringClaim ''id-1'')"
    using V [where lib = ref_libs and token = good_token and secret = "''key''" and now = 7200
        and userID = "''id-1''"] ok by blast
  from 1 2 3 ok 4 show ?thesis by blast
qed

text \<open>
  When the store does not answer, \<open>Login\<close> returns the error \<open>invalid credentials\<close>, the
  one it returns for an unknown email, whatever the email and the password; \<open>Register\<close>
  returns the error of the store as it is.
\<close>

lemma Login_store_failure:
  assumes "\<not> auth_reachable db"
  shows "AuthService_Login lib secret db now email password
           = Inl (ErrorsNew ''invalid credentials'')"
    and "AuthService_Register lib db uuid salt now email password name
           = (Inl connection_refused, db)"
  using assms
  by (simp_all add: AuthService_Login_def AuthService_Register_def auth_GetUserByEmail_def)

text \<open>
  C9. Alice is registered and logs in with her password while the store does not answer.
  The read of \<open>Login\<close> returns the error of the driver, but \<open>Login\<close> returns the error
  \<open>invalid credentials\<close>, and the gateway answers with status 401 and that message. On the
  same store \<open>Register\<close> returns the error of the driver unchanged.
\<close>

theorem Login_unreachable_store_gives_invalid_credentials:
  "auth_GetUserByEmail \<lparr>auth_rows = [alice_row], auth_reachable = False\<rparr> ''alice@example.com''
     = Inl connection_refused
 \<and> AuthService_Login ref_libs ''key'' \<lparr>auth_rows = [alice_row], auth_reachable = False\<rparr> 7200
      ''alice@example.com'' ''Secr3t!'' = Inl (ErrorsNew ''invalid credentials'')
 \<and> http_Login ref_service test_env (login_request ''alice@example.com'' ''Secr3t!'')
      (alice_system\<lparr>sys_auth := \<lparr>auth_rows = [alice_row], auth_reachable = False\<rparr>\<rparr>)
     = (http_Error ''Login failed: rpc error: code = Unknown desc = invalid credentials'' 401,
        alice_system\<lparr>sys_auth := \<lparr>auth_rows = [alice_row], auth_reachable = False\<rparr>\<rparr>)
 \<and> AuthService_Register ref_libs \<lparr>auth_rows = [alice_row], auth_reachable = False\<rparr> ''id-2''
      ''salt'' 7200 ''bob@example.com'' ''hunter2'' ''Bob''
     = (Inl connection_refused, \<lparr>auth_rows = [alice_row], auth_reachable = False\<rparr>)"
proof -
  let ?db = "\<lparr>auth_rows = [alice_row], auth_reachable = False\<rparr>"
  have down: "\<not> auth_reachable ?db"
    by simp
  have 1: "auth_GetUserByEmail ?db ''alice@example.com'' = Inl connection_refused"
    by (simp add: auth_GetUserByEmail_def)
  have 2: "AuthService_Login ref_libs ''key'' ?db 7200 ''alice@example.com'' ''Secr3t!''
      = Inl (ErrorsNew ''invalid credentials'')"
    using down by (rule Login_store_failure(1))
  have 3: "http_Login ref_service test_env (login_request ''alice@example.com'' ''Secr3t!'')
      (alice_system\<lparr>sys_auth := ?db\<rparr>)
     = (http_Error ''Login failed: rpc error: code = Unknown desc = invalid credentials'' 401,
        alice_system\<lparr>sys_auth := ?db\<rparr>)"
    by (simp add: http_Login_def login_request_def login_request_decodes authClient_Login_def
        AuthHandler_Login_def ref_service_def test_env_def alice_system_def 2)
  have 4: "AuthService_Register ref_libs ?db ''id-2'' ''salt'' 7200 ''bob@example.com''
      ''hunter2'' ''Bob'' = (Inl connection_refused, ?db)"
    using down by (rule Login_store_failure(2))
  show ?thesis
    by (intro conjI) (rule 1, rule 2, rule 3, rule 4)
qed

section \<open>Request Gate and Resource Authorizer: properties\<close>

text \<open>
  C4. The Request Gate on a protected route. Without an \<open>Authorization\<close> header it answers
  401; with a header that does not start with \<open>Bearer \<close> it answers 401; with a token that
  is empty after trimming it answers 401; in these cases the system is unchanged and the
  handler behind the gate is not run. With a well-formed header: when the call to the
  verifier fails it answers 500; when the verifier reports the token invalid it answers
  401; and when the verifier reports it valid, the result is that of the handler, run on
  a request that has the headers, the path and the body of the original one and from
  whose context \<open>GetUserID\<close> reads the user id that the verifier returned.
\<close>

theorem AuthMiddleware_gate:
  "(let authHeader = Header_Get r ''Authorization'';
        token = TrimSpace (TrimPrefix authHeader bearerPrefix);
        result = AuthMiddleware authClient handler r sys
    in (Header r ''Authorization'' = None \<longrightarrow>
            result = (http_Error ''Authorization header required'' 401, sys))
       \<and> (\<not> HasPrefix authHeader bearerPrefix \<longrightarrow> status (fst result) = 401 \<and> snd result = sys)
       \<and> (token = [] \<longrightarrow> status (fst result) = 401 \<and> snd result = sys)
       \<and> (HasPrefix authHeader bearerPrefix \<and> token \<noteq> [] \<longrightarrow>
            (\<forall>err. authClient sys token = Inl err \<longrightarrow>
               result = (http_Error ''Failed to validate token'' 500, sys))
          \<and> (\<forall>resp. authClient sys token = Inr resp \<and> \<not> vt_Valid resp \<longrightarrow>
               result = (http_Error (''Invalid token: '' @ vt_Error resp) 401, sys))
          \<and> (\<forall>resp. authClient sys token = Inr resp \<and> vt_Valid resp \<longrightarrow>
               result = handler (WithContext_user_id r (vt_UserId resp)) sys
             \<and> GetUserID (WithContext_user_id r (vt_UserId resp)) = vt_UserId resp
             \<and> Header (WithContext_user_id r (vt_UserId resp)) = Header r
             \<and> URLParam_id (WithContext_user_id r (vt_UserId resp)) = URLParam_id r
             \<and> Body (WithContext_user_id r (vt_UserId resp)) = Body r)))"
proof -
  have nonempty: "Header_Get r ''Authorization'' \<noteq> []"
    if "HasPrefix (Header_Get r ''Authorization'') bearerPrefix"
    using that by (auto simp: HasPrefix_def bearerPrefix_def)
  have absent: "Header_Get r ''Authorization'' = []" if "Header r ''Authorization'' = None"
    using that by (simp add: Header_Get_def)
  have attached: "GetUserID (WithContext_user_id r u) = u
      \<and> Header (WithContext_user_id r u) = Header r
      \<and> URLParam_id (WithContext_user_id r u) = URLParam_id r
      \<and> Body (WithContext_user_id r u) = Body r" for u
    by (simp add: GetUserID_def WithContext_user_id_def)
  show ?thesis
    unfolding AuthMiddleware_def Let_def
    using nonempty absent attached
    by (auto simp add: http_Error_def split: sum.splits)
qed

lemma good_token_literal:
  "good_token = ''uuuu.id-1+hhhhhhhhhhhhhhhhhhhhhhhhh.key#uuuu.id-1+hhhhhhhhhhhhhhhhhhhhhhhhh''"
  by (simp add: good_token_def ref_SigningString_login ref_HS256_def eval_nat_numeral)

lemma TrimSpace_good_token: "TrimSpace good_token = good_token"
  unfolding good_token_literal
  by (simp add: TrimSpace_def trim_runes.simps space_runes_def)

lemma TrimPrefix_append: "TrimPrefix (p @ s) p = s"
  by (simp add: TrimPrefix_def HasPrefix_def)

lemma HasPrefix_append: "HasPrefix (p @ s) p"
  by (simp add: HasPrefix_def)

lemma ref_validate_good_token:
  "AuthHandler_ValidateToken ref_service test_env good_token
     = \<lparr>vt_Valid = True, vt_UserId = ''id-1'', vt_Error = []\<rparr>"
proof -
  have signed: "jwt_SignedString ref_libs ''key'' (login_claims ''id-1'' 3600) = Inr good_token"
    by (simp add: jwt_SignedString_def good_token_def ref_libs_def Let_def)
  have "AuthService_ValidateToken ref_libs ''key'' 7200 good_token = Inr ''id-1''"
    by (rule ValidateToken_signed [OF ref_codec_sound _ signed]) simp
  then show ?thesis
    by (simp add: AuthHandler_ValidateToken_def ref_service_def test_env_def)
qed

text \<open>
  The six cases, with the auth service of the reference instance as verifier and the
  update handler behind the gate: no header, a Basic header, a Bearer header with blanks
  only, Alice's token while the auth service is down, a string that is no token, and
  Alice's token, after which the handler reads Alice's id from the context.
\<close>

theorem AuthMiddleware_gate_witness:
  "AuthMiddleware (authClient_ValidateToken ref_service test_env) (http_UpdateUser test_env)
     (gate_request None) alice_system
     = (http_Error ''Authorization header required'' 401, alice_system)
 \<and> status (fst (AuthMiddleware (authClient_ValidateToken ref_service test_env)
       (http_UpdateUser test_env) (gate_request (Some ''Basic YWxpY2U='')) alice_system)) = 401
 \<and> status (fst (AuthMiddleware (authClient_ValidateToken ref_service test_env)
       (http_UpdateUser test_env) (gate_request (Some ''Bearer   '')) alice_system)) = 401
 \<and> AuthMiddleware (authClient_ValidateToken ref_service test_env) (http_UpdateUser test_env)
     (gate_request (Some (bearerPrefix @ good_token))) (alice_system\<lparr>auth_service_up := False\<rparr>)
     = (http_Error ''Failed to validate token'' 500, alice_system\<lparr>auth_service_up := False\<rparr>)
 \<and> AuthMiddleware (authClient_ValidateToken ref_service test_env) (http_UpdateUser test_env)
     (gate_request (Some ''Bearer garbage'')) alice_system
     = (http_Error ''Invalid token: token is malformed'' 401, alice_system)
 \<and> AuthMiddleware (authClient_ValidateToken ref_service test_env) (http_UpdateUser test_env)
     (gate_request (Some (bearerPrefix @ good_token))) alice_system
     = http_UpdateUser test_env
         (WithContext_user_id (gate_request (Some (bearerPrefix @ good_token))) ''id-1'')
         alice_system
 \<and> GetUserID (WithContext_user_id (gate_request (Some (bearerPrefix @ good_token))) ''id-1'')
     = ''id-1''"
proof -
  let ?C = "authClient_ValidateToken ref_service test_env"
  let ?H = "http_UpdateUser test_env"
  note G = AuthMiddleware_gate [where authClient = ?C and handler = ?H, unfolded Let_def]
  have up: "auth_service_up alice_system" by (simp add: alice_system_def)
  have 1: "AuthMiddleware ?C ?H (gate_request None) alice_system
     = (http_Error ''Authorization header required'' 401, alice_system)"
    using G [of "gate_request None" alice_system] by (simp add: gate_request_def)
  have 2: "status (fst (AuthMiddleware ?C ?H (gate_request (Some ''Basic YWxpY2U='')) alice_system)) = 401"
    using G [of "gate_request (Some ''Basic YWxpY2U='')" alice_system]
    by (simp add: gate_request_def Header_Get_def HasPrefix_def bearerPrefix_def)
  have 3: "status (fst (AuthMiddleware ?C ?H (gate_request (Some ''Bearer   '')) alice_system)) = 401"
    using G [of "gate_request (Some ''Bearer   '')" alice_system]
    by (simp add: gate_request_def Header_Get_def HasPrefix_def TrimPrefix_def bearerPrefix_def
        TrimSpace_def trim_runes.simps space_runes_def)
  let ?r = "gate_request (Some (bearerPrefix @ good_token))"
  have hdr: "Header_Get ?r ''Authorization'' = bearerPrefix @ good_token"
    by (simp add: gate_request_def Header_Get_def)
  have good_nonempty: "good_token \<noteq> []"
    by (simp add: good_token_literal)
  have wellformed: "HasPrefix (bearerPrefix @ good_token) bearerPrefix \<and> good_token \<noteq> []"
    using HasPrefix_append good_nonempty by (rule conjI)
  note W = G [THEN conjunct2, THEN conjunct2, THEN conjunct2, of ?r,
      unfolded hdr TrimPrefix_append TrimSpace_good_token, THEN mp, OF wellformed]
  have down: "?C (alice_system\<lparr>auth_service_up := False\<rparr>) good_token = Inl unavailable"
    by (simp add: authClient_ValidateToken_def)
  have 4: "AuthMiddleware ?C ?H ?r (alice_system\<lparr>auth_service_up := False\<rparr>)
     = (http_Error ''Failed to validate token'' 500, alice_system\<lparr>auth_service_up := False\<rparr>)"
    using W [THEN conjunct1, THEN spec, THEN mp, OF down] .
  have garbage: "AuthHandler_ValidateToken ref_service test_env ''garbage''
      = \<lparr>vt_Valid = False, vt_UserId = [], vt_Error = ''token is malformed''\<rparr>"
    by (simp add: AuthHandler_ValidateToken_def AuthService_ValidateToken_def jwt_Parse_def
        ref_service_def ref_libs_def ref_ParseUnverified_def)
  have 5: "AuthMiddleware ?C ?H (gate_request (Some ''Bearer garbage'')) alice_system
     = (http_Error ''Invalid token: token is malformed'' 401, alice_system)"
    using G [of "gate_request (Some ''Bearer garbage'')" alice_system] up
    by (simp add: gate_request_def Header_Get_def HasPrefix_def TrimPrefix_def bearerPrefix_def
        TrimSpace_def trim_runes.simps space_runes_def authClient_ValidateToken_def garbage)
  have valid: "?C alice_system good_token = Inr \<lparr>vt_Valid = True, vt_UserId = ''id-1'', vt_Error = []\<rparr>
      \<and> vt_Valid \<lparr>vt_Valid = True, vt_UserId = ''id-1'', vt_Error = []\<rparr>"
    using up by (simp add: authClient_ValidateToken_def ref_validate_good_token)
  note S = W [THEN conjunct2, THEN conjunct2, THEN spec, THEN mp, OF valid]
  have 6: "AuthMiddleware ?C ?H ?r alice_system = ?H (WithContext_user_id ?r ''id-1'') alice_system"
    using S [THEN conjunct1] by simp
  have 7: "GetUserID (WithContext_user_id ?r ''id-1'') = ''id-1''"
    using S [THEN conjunct2, THEN conjunct1] by simp
  show ?thesis
    by (intro conjI) (rule 1, rule 2, rule 3, rule 4, rule 5, rule 6, rule 7)
qed

text \<open>
  Each of the five user handlers answers a failure of the authorizer with status 403 and
  the message of the error, and leaves the system as it is.
\<close>

lemma http_GetUser_unauthorized:
  "authorizeUserAccess r = Inl err \<Longrightarrow> http_GetUser r sys = (http_Error (Error err) 403, sys)"
  by (simp add: http_GetUser_def)

lemma http_UpdateUser_unauthorized:
  "authorizeUserAccess r = Inl err \<Longrightarrow> http_UpdateUser env r sys = (http_Error (Error err) 403, sys)"
  by (simp add: http_UpdateUser_def)

lemma http_DeleteUser_unauthorized:
  "authorizeUserAccess r = Inl err \<Longrightarrow> http_DeleteUser env r sys = (http_Error (Error err) 403, sys)"
  by (simp add: http_DeleteUser_def)

lemma http_AddAddress_unauthorized:
  "authorizeUserAccess r = Inl err \<Longrightarrow> http_AddAddress env r sys = (http_Error (Error err) 403, sys)"
  by (simp add: http_AddAddress_def)

lemma http_GetAddresses_unauthorized:
  "authorizeUserAccess r = Inl err \<Longrightarrow> http_GetAddresses r sys = (http_Error (Error err) 403, sys)"
  by (simp add: http_GetAddresses_def)

text \<open>
  The empty string is what \<open>GetUserID\<close> returns for a context without an identity; the
  authorizer then fails before it compares.
\<close>

lemma authorizeUserAccess_no_identity:
  "GetUserID r = [] \<Longrightarrow> authorizeUserAccess r = Inl (ErrorsNew ''no authenticated user found'')"
  by (simp add: authorizeUserAccess_def Let_def)

text \<open>
  C5. For a request that carries an identity (the Request Gate attached a user id, which
  \<open>GetUserID\<close> reads from the context), the Resource Authorizer succeeds if and only if
  the id of the path equals the identity, and then returns it: an identity that asks for
  its own resource always passes. Otherwise it fails with the error \<open>forbidden\<close>, and
  each of the five user handlers answers with status 403 and that message and leaves the
  system as it is.
\<close>

theorem authorizeUserAccess_self_access:
  assumes "GetUserID r \<noteq> []"
  shows "(let msg = ''forbidden: cannot access other users' data'' in
          ((\<not> isl (authorizeUserAccess r)) = (URLParam_id r = GetUserID r))
        \<and> (URLParam_id r = GetUserID r \<longrightarrow> authorizeUserAccess r = Inr (GetUserID r))
        \<and> (URLParam_id r \<noteq> GetUserID r \<longrightarrow>
              authorizeUserAccess r = Inl (ErrorsNew msg)
            \<and> http_GetUser r sys = (http_Error msg 403, sys)
            \<and> http_UpdateUser env r sys = (http_Error msg 403, sys)
            \<and> http_DeleteUser env r sys = (http_Error msg 403, sys)
            \<and> http_AddAddress env r sys = (http_Error msg 403, sys)
            \<and> http_GetAddresses r sys = (http_Error msg 403, sys)))"
proof -
  let ?msg = "''forbidden: cannot access other users' data''"
  have same: "authorizeUserAccess r = Inr (GetUserID r)" if "URLParam_id r = GetUserID r"
    using assms that by (simp add: authorizeUserAccess_def Let_def)
  have other: "authorizeUserAccess r = Inl (ErrorsNew ?msg)" if "URLParam_id r \<noteq> GetUserID r"
    using assms that by (simp add: authorizeUserAccess_def Let_def)
  have iff: "(\<not> isl (authorizeUserAccess r)) = (URLParam_id r = GetUserID r)"
  proof (cases "URLParam_id r = GetUserID r")
    case True
    then show ?thesis by (simp add: same)
  next
    case False
    then show ?thesis by (simp add: other)
  qed
  have handlers: "http_GetUser r sys = (http_Error ?msg 403, sys)
      \<and> http_UpdateUser env r sys = (http_Error ?msg 403, sys)
      \<and> http_DeleteUser env r sys = (http_Error ?msg 403, sys)
      \<and> http_AddAddress env r sys = (http_Error ?msg 403, sys)
      \<and> http_GetAddresses r sys = (http_Error ?msg 403, sys)"
    if "URLParam_id r \<noteq> GetUserID r"
    using http_GetUser_unauthorized [OF other [OF that], of sys]
      http_UpdateUser_unauthorized [OF other [OF that], of env sys]
      http_DeleteUser_unauthorized [OF other [OF that], of env sys]
      http_AddAddress_unauthorized [OF other [OF that], of env sys]
      http_GetAddresses_unauthorized [OF other [OF that], of sys]
    by simp
  show ?thesis
    unfolding Let_def using iff same other handlers by blast
qed

text \<open>
  Alice asking for her own profile, and Alice asking for the profile \<open>id-9\<close> through each
  of the five handlers.
\<close>

theorem authorizeUserAccess_self_access_witness:
  "authorizeUserAccess self_request = Inr ''id-1''
 \<and> authorizeUserAccess other_request
     = Inl (ErrorsNew ''forbidden: cannot access other users' data'')
 \<and> http_GetUser other_request alice_system
     = (http_Error ''forbidden: cannot access other users' data'' 403, alice_system)
 \<and> http_UpdateUser test_env other_request alice_system
     = (http_Error ''forbidden: cannot access other users' data'' 403, alice_system)
 \<and> http_DeleteUser test_env other_request alice_system
     = (http_Error ''forbidden: cannot access other users' data'' 403, alice_system)
 \<and> http_AddAddress test_env other_request alice_system
     = (http_Error ''forbidden: cannot access other users' data'' 403, alice_system)
 \<and> http_GetAddresses other_request alice_system
     = (http_Error ''forbidden: cannot access other users' data'' 403, alice_system)"
proof -
  have self_id: "GetUserID self_request \<noteq> []"
    and self_eq: "URLParam_id self_request = GetUserID self_request"
    and self_val: "GetUserID self_request = ''id-1''"
    by (simp_all add: self_request_def gate_request_def GetUserID_def)
  have other_id: "GetUserID other_request \<noteq> []"
    and other_neq: "URLParam_id other_request \<noteq> GetUserID other_request"
    by (simp_all add: other_request_def gate_request_def GetUserID_def)
  note own = authorizeUserAccess_self_access [OF self_id, unfolded Let_def,
      where sys = alice_system and env = test_env]
  note other = authorizeUserAccess_self_access [OF other_id, unfolded Let_def,
      where sys = alice_system and env = test_env,
      THEN conjunct2, THEN conjunct2, THEN mp, OF other_neq]
  have "authorizeUserAccess self_request = Inr (GetUserID self_request)"
    by (rule own [THEN conjunct2, THEN conjunct1, THEN mp, OF self_eq])
  then have 1: "authorizeUserAccess self_request = Inr ''id-1''"
    unfolding self_val .
  show ?thesis
    by (intro conjI)
       (rule 1, rule other [THEN conjunct1],
        rule other [THEN conjunct2, THEN conjunct1],
        rule other [THEN conjunct2, THEN conjunct2, THEN conjunct1],
        rule other [THEN conjunct2, THEN conjunct2, THEN conjunct2, THEN conjunct1],
        rule other [THEN conjunct2, THEN conjunct2, THEN conjunct2, THEN conjunct2,
          THEN conjunct1],
        rule other [THEN conjunct2, THEN conjunct2, THEN conjunct2, THEN conjunct2,
          THEN conjunct2])
qed

section \<open>Registration and login through the handlers: properties\<close>

lemma Register_Inr:
  assumes "AuthService_Register lib db uuid salt now email password name = (Inr userID, db')"
  shows "userID = uuid"
    and "\<exists>h. auth_rows db' = auth_rows db @ [new_account uuid now email h name]"
    and "auth_reachable db' = auth_reachable db"
  using assms
  by (auto simp add: AuthService_Register_def auth_CreateUser_def auth_GetUserByEmail_def
      new_account_def Let_def split: sum.splits option.splits if_splits)

lemma UserHandler_CreateUser_failed:
  assumes "UserHandler_CreateUser db uuid now req = (resp, db')" and "ur_Error resp \<noteq> []"
  shows "db' = db"
  using assms
  by (auto simp add: UserHandler_CreateUser_def UserService_CreateUser_def user_CreateUser_def
      Let_def split: if_splits)

lemma userClient_CreateUser_failed:
  assumes "userClient_CreateUser sys env req = (m, sys')" and "mirror_failed m"
  shows "sys' = sys"
proof (cases "user_service_up sys")
  case False
  with assms(1) show ?thesis by (simp add: userClient_CreateUser_def)
next
  case True
  obtain resp db' where h: "UserHandler_CreateUser (sys_user sys) (env_uuid2 env) (env_now env) req = (resp, db')"
    by (cases "UserHandler_CreateUser (sys_user sys) (env_uuid2 env) (env_now env) req")
  with True assms(1) have m: "m = Inr resp" and s: "sys' = sys\<lparr>sys_user := db'\<rparr>"
    by (simp_all add: userClient_CreateUser_def)
  from m assms(2) have "ur_Error resp \<noteq> []" by (simp add: mirror_failed_def)
  with h have "db' = sys_user sys" by (rule UserHandler_CreateUser_failed)
  with s show ?thesis by simp
qed

lemma AuthHandler_Register_mirror_failed:
  assumes "AuthService_Register (libs svc) (sys_auth sys) (env_uuid env) (env_salt env)
             (env_now env) (rr_Email req) (rr_Password req) (rr_Name req) = (Inr userID, db')"
    and "userClient_CreateUser (sys\<lparr>sys_auth := db'\<rparr>) env
           \<lparr>cu_UserId = userID, cu_Email = rr_Email req, cu_Name = rr_Name req, cu_Phone = []\<rparr>
         = (m, sys')"
    and "mirror_failed m"
  shows "isl (fst (AuthHandler_Register svc sys env req))"
    and "snd (AuthHandler_Register svc sys env req) = sys\<lparr>sys_auth := db'\<rparr>"
proof -
  have same: "sys' = sys\<lparr>sys_auth := db'\<rparr>"
    using assms(2,3) by (rule userClient_CreateUser_failed)
  show "isl (fst (AuthHandler_Register svc sys env req))"
    using assms by (cases m) (simp_all add: AuthHandler_Register_def mirror_failed_def)
  show "snd (AuthHandler_Register svc sys env req) = sys\<lparr>sys_auth := db'\<rparr>"
    using assms same by (cases m) (simp_all add: AuthHandler_Register_def mirror_failed_def)
qed

text \<open>
  C6. When \<open>Register\<close> of the Credential Service has stored the account and the call that
  creates the profile fails, the gRPC handler \<open>Register\<close> returns an error, the Credential
  Store is left as the commit made it, with the account in it, and the Profile Store,
  which had no profile for the new id, still has none.
\<close>

theorem register_mirror_failure_keeps_account:
  assumes "AuthService_Register (libs svc) (sys_auth sys) (env_uuid env) (env_salt env)
             (env_now env) (rr_Email req) (rr_Password req) (rr_Name req) = (Inr userID, db')"
    and "userClient_CreateUser (sys\<lparr>sys_auth := db'\<rparr>) env
           \<lparr>cu_UserId = userID, cu_Email = rr_Email req, cu_Name = rr_Name req, cu_Phone = []\<rparr>
         = (m, sys')"
    and "mirror_failed m"
    and "\<not> list_ex (\<lambda>p. pu_ID p = userID) (user_rows (sys_user sys))"
  shows "isl (fst (AuthHandler_Register svc sys env req))
       \<and> sys_auth (snd (AuthHandler_Register svc sys env req)) = db'
       \<and> list_ex (\<lambda>a. au_ID a = userID \<and> au_Email a = rr_Email req) (auth_rows db')
       \<and> \<not> list_ex (\<lambda>p. pu_ID p = userID)
              (user_rows (sys_user (snd (AuthHandler_Register svc sys env req))))"
proof -
  note failed = AuthHandler_Register_mirror_failed [OF assms(1,2,3)]
  obtain h where rows: "auth_rows db' = auth_rows (sys_auth sys)
      @ [new_account (env_uuid env) (env_now env) (rr_Email req) h (rr_Name req)]"
    using Register_Inr(2) [OF assms(1)] by blast
  have uid: "userID = env_uuid env"
    using assms(1) by (rule Register_Inr(1))
  have "list_ex (\<lambda>a. au_ID a = userID \<and> au_Email a = rr_Email req) (auth_rows db')"
    unfolding rows by (simp add: new_account_def uid list_ex_iff)
  moreover have "sys_user (snd (AuthHandler_Register svc sys env req)) = sys_user sys"
    unfolding failed(2) by simp
  ultimately show ?thesis
    using failed assms(4) by simp
qed

text \<open>
  Bob registers while the user service is down: the handler fails, Bob's account is in
  the Credential Store, and the Profile Store has no profile for him.
\<close>

theorem register_mirror_failure_keeps_account_witness:
  "isl (fst (AuthHandler_Register ref_service down_system test_env bob_request))
 \<and> sys_auth (snd (AuthHandler_Register ref_service down_system test_env bob_request))
     = \<lparr>auth_rows = [alice_row, bob_row], auth_reachable = True\<rparr>
 \<and> list_ex (\<lambda>a. au_ID a = ''id-2'' \<and> au_Email a = rr_Email bob_request)
       (auth_rows \<lparr>auth_rows = [alice_row, bob_row], auth_reachable = True\<rparr>)
 \<and> \<not> list_ex (\<lambda>p. pu_ID p = ''id-2'')
        (user_rows (sys_user (snd (AuthHandler_Register ref_service down_system test_env
           bob_request))))"
proof -
  let ?db' = "\<lparr>auth_rows = [alice_row, bob_row], auth_reachable = True\<rparr>"
  have gen: "bcrypt_GenerateFromPassword ref_libs ''salt'' ''hunter2'' bcrypt_DefaultCost
             = Inr ''2retnuh$salt''"
    by (simp add: ref_libs_def ref_GenerateFromPassword_def)
  have "AuthService_Register ref_libs (sys_auth down_system) ''id-2'' ''salt'' 7200
          ''bob@example.com'' ''hunter2'' ''Bob''
        = (Inr ''id-2'', (sys_auth down_system)\<lparr>auth_rows := auth_rows (sys_auth down_system)
             @ [new_account ''id-2'' 7200 ''bob@example.com'' ''2retnuh$salt'' ''Bob'']\<rparr>)"
    by (rule Register_success [OF _ _ gen])
       (simp_all add: down_system_def alice_system_def alice_row_def)
  then have commit: "AuthService_Register (libs ref_service) (sys_auth down_system)
      (env_uuid test_env) (env_salt test_env) (env_now test_env)
      (rr_Email bob_request) (rr_Password bob_request) (rr_Name bob_request) = (Inr ''id-2'', ?db')"
    by (simp add: ref_service_def test_env_def bob_request_def bob_row_def down_system_def
        alice_system_def)
  have mirror: "userClient_CreateUser (down_system\<lparr>sys_auth := ?db'\<rparr>) test_env
      \<lparr>cu_UserId = ''id-2'', cu_Email = rr_Email bob_request, cu_Name = rr_Name bob_request,
       cu_Phone = []\<rparr> = (Inl unavailable, down_system\<lparr>sys_auth := ?db'\<rparr>)"
    by (simp add: userClient_CreateUser_def down_system_def)
  have failed: "mirror_failed (Inl unavailable)"
    by (simp add: mirror_failed_def)
  have none: "\<not> list_ex (\<lambda>p. pu_ID p = ''id-2'') (user_rows (sys_user down_system))"
    by (simp add: down_system_def alice_system_def)
  show ?thesis
    by (rule register_mirror_failure_keeps_account [OF commit mirror failed none])
qed

text \<open>
  C7, as stated, fails: \<open>Register\<close> of the Credential Service, called with an empty name,
  succeeds and stores an account. The service does not test its arguments for
  emptiness.
\<close>

theorem Register_empty_name_counterexample:
  "AuthService_Register ref_libs \<lparr>auth_rows = [], auth_reachable = True\<rparr> ''id-2'' ''salt'' 7200
     ''bob@example.com'' ''hunter2'' []
   = (Inr ''id-2'',
      \<lparr>auth_rows = [\<lparr>au_ID = ''id-2'', au_Email = ''bob@example.com'',
                      au_Password = ''2retnuh$salt'', au_Name = [], au_CreatedAt = 7200,
                      au_LastLogin = zero_time\<rparr>],
       auth_reachable = True\<rparr>)"
  by (simp add: AuthService_Register_def auth_GetUserByEmail_def auth_CreateUser_def
      ref_libs_def ref_GenerateFromPassword_def bcrypt_DefaultCost_def Let_def)

text \<open>
  C7, amended. The gateway's handler of \<open>POST /auth/register\<close> answers a request whose
  body decodes to an empty email, an empty password or an empty name (a field that the
  body does not set decodes to the empty string) with status 400, without calling the
  Credential Service: the system, and so the set of accounts, is unchanged.
\<close>

theorem http_Register_rejects_empty_fields:
  assumes "Body r = JSONObject obj"
    and "json_field obj ''email'' = [] \<or> json_field obj ''password'' = []
         \<or> json_field obj ''name'' = []"
  shows "http_Register svc env r sys
         = (http_Error (if json_type_error [''email'', ''password'', ''name''] [] obj
                        then ''Invalid JSON format''
                        else ''Email,name and password are required'') 400, sys)"
  using assms by (auto simp add: http_Register_def Let_def)

text \<open>
  A registration without a name, and one with an empty password under the key
  \<open>PASSWORD\<close>.
\<close>

theorem http_Register_rejects_empty_fields_witness:
  "http_Register ref_service test_env
     (register_request [(''email'', JSONString ''bob@example.com''),
                        (''password'', JSONString ''hunter2'')])
     alice_system
   = (http_Error ''Email,name and password are required'' 400, alice_system)
 \<and> http_Register ref_service test_env
     (register_request [(''email'', JSONString ''bob@example.com''),
                        (''PASSWORD'', JSONString []), (''name'', JSONString ''Bob'')])
     alice_system
   = (http_Error ''Email,name and password are required'' 400, alice_system)"
proof -
  let ?a = "[(''email'', JSONString ''bob@example.com''), (''password'', JSONString ''hunter2'')]"
  let ?b = "[(''email'', JSONString ''bob@example.com''), (''PASSWORD'', JSONString []),
             (''name'', JSONString ''Bob'')]"
  have body: "Body (register_request obj) = JSONObject obj" for obj
    by (simp add: register_request_def)
  have a_empty: "json_field ?a ''email'' = [] \<or> json_field ?a ''password'' = []
      \<or> json_field ?a ''name'' = []"
    by (simp add: json_field_def key_matches_def foldName_fields)
  have a_typed: "\<not> json_type_error [''email'', ''password'', ''name''] [] ?a"
    by (simp add: json_type_error_def key_matches_def foldName_fields)
  have b_empty: "json_field ?b ''email'' = [] \<or> json_field ?b ''password'' = []
      \<or> json_field ?b ''name'' = []"
    by (simp add: json_field_def key_matches_def foldName_fields toUpper_def)
  have b_typed: "\<not> json_type_error [''email'', ''password'', ''name''] [] ?b"
    by (simp add: json_type_error_def key_matches_def foldName_fields toUpper_def)
  have 1: "http_Register ref_service test_env (register_request ?a) alice_system
      = (http_Error ''Email,name and password are required'' 400, alice_system)"
    using http_Register_rejects_empty_fields [OF body a_empty, of ref_service test_env
        alice_system] a_typed
    by simp
  have 2: "http_Register ref_service test_env (register_request ?b) alice_system
      = (http_Error ''Email,name and password are required'' 400, alice_system)"
    using http_Register_rejects_empty_fields [OF body b_empty, of ref_service test_env
        alice_system] b_typed
    by simp
  from 1 2 show ?thesis by (rule conjI)
qed

text \<open>
  The keys of the body are matched without regard to case: Bob's registration under the
  keys \<open>EMAIL\<close>, \<open>PASSWORD\<close> and \<open>NAME\<close> is accepted and stores his account.
\<close>

lemma http_Register_case_variant_keys:
  "fst (http_Register ref_service test_env
     (register_request [(''EMAIL'', JSONString ''bob@example.com''),
                        (''PASSWORD'', JSONString ''hunter2''), (''NAME'', JSONString ''Bob'')])
     alice_system)
   = \<lparr>status = 201,
      payload = RegisterJSON \<lparr>rg_UserID = ''id-2'', rg_Message = ''User registered successfully''\<rparr>\<rparr>
 \<and> auth_rows (sys_auth (snd (http_Register ref_service test_env
     (register_request [(''EMAIL'', JSONString ''bob@example.com''),
                        (''PASSWORD'', JSONString ''hunter2''), (''NAME'', JSONString ''Bob'')])
     alice_system)))
   = [alice_row, bob_row]"
proof -
  let ?obj = "[(''EMAIL'', JSONString ''bob@example.com''), (''PASSWORD'', JSONString ''hunter2''),
               (''NAME'', JSONString ''Bob'')]"
  have decoded: "\<not> json_type_error [''email'', ''password'', ''name''] [] ?obj"
    "json_field ?obj ''email'' = ''bob@example.com''"
    "json_field ?obj ''password'' = ''hunter2''"
    "json_field ?obj ''name'' = ''Bob''"
    by (simp_all add: json_type_error_def json_field_def key_matches_def foldName_fields
        toUpper_def)
  have gen: "bcrypt_GenerateFromPassword ref_libs ''salt'' ''hunter2'' bcrypt_DefaultCost
             = Inr ''2retnuh$salt''"
    by (simp add: ref_libs_def ref_GenerateFromPassword_def)
  have "AuthService_Register ref_libs (sys_auth alice_system) ''id-2'' ''salt'' 7200
          ''bob@example.com'' ''hunter2'' ''Bob''
        = (Inr ''id-2'', (sys_auth alice_system)\<lparr>auth_rows := auth_rows (sys_auth alice_system)
             @ [new_account ''id-2'' 7200 ''bob@example.com'' ''2retnuh$salt'' ''Bob'']\<rparr>)"
    by (rule Register_success [OF _ _ gen])
       (simp_all add: alice_system_def alice_row_def)
  then have commit: "AuthService_Register ref_libs (sys_auth alice_system) ''id-2'' ''salt'' 7200
          ''bob@example.com'' ''hunter2'' ''Bob''
        = (Inr ''id-2'', \<lparr>auth_rows = [alice_row, bob_row], auth_reachable = True\<rparr>)"
    by (simp add: alice_system_def bob_row_def)
  then have commit': "AuthService_Register ref_libs \<lparr>auth_rows = [alice_row], auth_reachable = True\<rparr>
          ''id-2'' ''salt'' 7200 ''bob@example.com'' ''hunter2'' ''Bob''
        = (Inr ''id-2'', \<lparr>auth_rows = [alice_row, bob_row], auth_reachable = True\<rparr>)"
    by (simp add: alice_system_def)
  have "AuthHandler_Register ref_service alice_system test_env
          \<lparr>rr_Email = ''bob@example.com'', rr_Password = ''hunter2'', rr_Name = ''Bob''\<rparr>
        = (Inr \<lparr>rs_UserId = ''id-2'', rs_Message = ''User registered successfully''\<rparr>,
           alice_system\<lparr>sys_auth := \<lparr>auth_rows = [alice_row, bob_row], auth_reachable = True\<rparr>,
             sys_user := \<lparr>user_rows =
               [\<lparr>pu_ID = ''id-2'', pu_Email = ''bob@example.com'', pu_Name = ''Bob'',
                 pu_Phone = [], pu_CreatedAt = 7200, pu_UpdatedAt = 7200, pu_DeletedAt = None\<rparr>],
               address_rows = [], user_reachable = True\<rparr>\<rparr>)"
    by (simp add: AuthHandler_Register_def ref_service_def test_env_def commit'
        userClient_CreateUser_def UserHandler_CreateUser_def UserService_CreateUser_def
        user_CreateUser_def Let_def alice_system_def)
  then show ?thesis
    by (simp add: http_Register_def register_request_def decoded authClient_Register_def
        alice_system_def)
qed

text \<open>Whatever the account, the response of the gRPC handler \<open>Login\<close> names no user.\<close>

lemma AuthHandler_Login_no_identity:
  "AuthHandler_Login svc sys env req = Inr resp \<Longrightarrow> ls_UserId resp = [] \<and> ls_Name resp = []"
  by (auto simp add: AuthHandler_Login_def split: sum.splits)

text \<open>
  C8. Alice, whose account has id \<open>id-1\<close> and name \<open>Alice\<close>, logs in with her password
  through \<open>POST /auth/login\<close>. The answer has status 200 and carries the token, but its
  \<open>user_id\<close> and its \<open>name\<close> are the empty string: the gRPC handler \<open>Login\<close> fills both
  fields with \<open>""\<close>.
\<close>

theorem http_Login_success_has_empty_user_id_and_name:
  "http_Login ref_service test_env (login_request ''alice@example.com'' ''Secr3t!'') alice_system
   = (\<lparr>status = 200,
       payload = LoginJSON
         \<lparr>lg_Token = ref_SigningString (login_claims ''id-1'' 7200) @ ''.'' @
                      ref_HS256 (ref_SigningString (login_claims ''id-1'' 7200)) ''key'',
          lg_UserID = [], lg_Name = []\<rparr>\<rparr>,
      alice_system)
 \<and> au_ID alice_row = ''id-1'' \<and> au_Name alice_row = ''Alice''"
proof -
  have user: "auth_GetUserByEmail (sys_auth alice_system) ''alice@example.com'' = Inr (Some alice_row)"
    by (simp add: auth_GetUserByEmail_def alice_system_def alice_row_def)
  have ok: "bcrypt_CompareHashAndPassword ref_libs (au_Password alice_row) ''Secr3t!'' = None"
    by (simp add: ref_libs_def ref_CompareHashAndPassword_def alice_row_def)
  have id: "au_ID alice_row = ''id-1''" and name: "au_Name alice_row = ''Alice''"
    by (simp_all add: alice_row_def)
  have "AuthService_Login ref_libs ''key'' (sys_auth alice_system) 7200 ''alice@example.com'' ''Secr3t!''
      = Inr (ref_SigningString (login_claims ''id-1'' 7200) @ ''.'' @
             ref_HS256 (ref_SigningString (login_claims ''id-1'' 7200)) ''key'')"
  proof -
    have "AuthService_Login ref_libs ''key'' (sys_auth alice_system) 7200 ''alice@example.com''
        ''Secr3t!'' = jwt_SignedString ref_libs ''key'' (login_claims ''id-1'' 7200)"
      by (simp add: AuthService_Login_def user ok id jwt_SignedString_def Let_def)
    then show ?thesis
      by (simp add: jwt_SignedString_def Let_def ref_libs_def)
  qed
  then have "authClient_Login ref_service alice_system test_env
        \<lparr>lr_Email = ''alice@example.com'', lr_Password = ''Secr3t!''\<rparr>
      = Inr \<lparr>ls_Token = ref_SigningString (login_claims ''id-1'' 7200) @ ''.'' @
              ref_HS256 (ref_SigningString (login_claims ''id-1'' 7200)) ''key'',
             ls_UserId = [], ls_Name = []\<rparr>"
    by (simp add: authClient_Login_def AuthHandler_Login_def ref_service_def test_env_def
        alice_system_def)
  then have "http_Login ref_service test_env (login_request ''alice@example.com'' ''Secr3t!'')
      alice_system
   = (\<lparr>status = 200,
       payload = LoginJSON
         \<lparr>lg_Token = ref_SigningString (login_claims ''id-1'' 7200) @ ''.'' @
                      ref_HS256 (ref_SigningString (login_claims ''id-1'' 7200)) ''key'',
          lg_UserID = [], lg_Name = []\<rparr>\<rparr>,
      alice_system)"
    by (simp add: http_Login_def login_request_def login_request_decodes)
  with id name show ?thesis by simp
qed

section \<open>Profile update: properties\<close>

lemma find_map_preserved:
  assumes "find P xs = Some u" and "\<And>r. P (f r) = P r"
  shows "find P (map f xs) = Some (f u)"
  using assms(1) by (induction xs) (auto simp add: assms(2) split: if_splits)

lemma UpdateUser_result:
  assumes "user_reachable db" and "userID \<noteq> []"
    and "user_GetUserByID db userID = Inr (Some user)"
  shows "UserService_UpdateUser db now userID name phone
         = (Inr (user\<lparr>pu_Name := name, pu_Phone := phone, pu_UpdatedAt := now\<rparr>),
            db\<lparr>user_rows :=
                 map (\<lambda>r. if pu_ID r = userID
                          then r\<lparr>pu_Name := name, pu_Phone := phone, pu_UpdatedAt := now\<rparr>
                          else r) (user_rows db)\<rparr>)"
proof -
  from assms(1,3) have "find (\<lambda>r. pu_ID r = userID \<and> pu_DeletedAt r = None) (user_rows db) = Some user"
    by (simp add: user_GetUserByID_def)
  then have "pu_ID user = userID"
    by (auto simp add: find_Some_iff)
  then show ?thesis
    using assms by (simp add: UserService_UpdateUser_def user_UpdateUser_def Let_def)
qed

lemma GetUserByID_after_update:
  assumes "user_reachable db" and "user_GetUserByID db userID = Inr (Some user)"
  shows "user_GetUserByID
           (db\<lparr>user_rows :=
                 map (\<lambda>r. if pu_ID r = userID
                          then r\<lparr>pu_Name := name, pu_Phone := phone, pu_UpdatedAt := now\<rparr>
                          else r) (user_rows db)\<rparr>) userID
         = Inr (Some (user\<lparr>pu_Name := name, pu_Phone := phone, pu_UpdatedAt := now\<rparr>))"
proof -
  let ?P = "\<lambda>r. pu_ID r = userID \<and> pu_DeletedAt r = None"
  let ?f = "\<lambda>r. if pu_ID r = userID
                 then r\<lparr>pu_Name := name, pu_Phone := phone, pu_UpdatedAt := now\<rparr> else r"
  from assms have found: "find ?P (user_rows db) = Some user"
    by (simp add: user_GetUserByID_def)
  then have "pu_ID user = userID"
    by (auto simp add: find_Some_iff)
  moreover have "find ?P (map ?f (user_rows db)) = Some (?f user)"
    using found by (rule find_map_preserved) simp
  ultimately show ?thesis
    using assms(1) by (simp add: user_GetUserByID_def)
qed

lemma http_UpdateUser_success:
  assumes "user_reachable (sys_user sys)" and "userID \<noteq> []"
    and "user_GetUserByID (sys_user sys) userID = Inr (Some user)"
    and "user_service_up sys" and "authorizeUserAccess r = Inr userID"
    and "Body r = JSONObject obj"
    and "\<not> json_type_error [''name'', ''phone''] [] obj"
    and "json_field obj ''name'' \<noteq> [] \<or> json_field obj ''phone'' \<noteq> []"
  shows "http_UpdateUser env r sys
         = (\<lparr>status = 200,
             payload = UserJSON (to_UserResponse (to_pb_User
               (user\<lparr>pu_Name := json_field obj ''name'', pu_Phone := json_field obj ''phone'',
                      pu_UpdatedAt := env_now env\<rparr>)))\<rparr>,
            sys\<lparr>sys_user := (sys_user sys)\<lparr>user_rows :=
                 map (\<lambda>r. if pu_ID r = userID
                          then r\<lparr>pu_Name := json_field obj ''name'',
                                 pu_Phone := json_field obj ''phone'',
                                 pu_UpdatedAt := env_now env\<rparr>
                          else r) (user_rows (sys_user sys))\<rparr>\<rparr>)"
proof -
  note upd = UpdateUser_result [OF assms(1,2,3), where now = "env_now env"
      and name = "json_field obj ''name''" and phone = "json_field obj ''phone''"]
  have "userClient_UpdateUser sys env
          \<lparr>uu_UserId = userID, uu_Name = json_field obj ''name'',
           uu_Phone = json_field obj ''phone''\<rparr>
        = (Inr \<lparr>ur_User = Some (to_pb_User
                  (user\<lparr>pu_Name := json_field obj ''name'', pu_Phone := json_field obj ''phone'',
                         pu_UpdatedAt := env_now env\<rparr>)), ur_Error = []\<rparr>,
           sys\<lparr>sys_user := (sys_user sys)\<lparr>user_rows :=
                 map (\<lambda>r. if pu_ID r = userID
                          then r\<lparr>pu_Name := json_field obj ''name'',
                                 pu_Phone := json_field obj ''phone'',
                                 pu_UpdatedAt := env_now env\<rparr>
                          else r) (user_rows (sys_user sys))\<rparr>\<rparr>)"
    using assms(4) by (simp add: userClient_UpdateUser_def UserHandler_UpdateUser_def upd)
  then show ?thesis
    using assms(5,6,7,8) by (auto simp add: http_UpdateUser_def Let_def)
qed

lemma UpdateUser_not_found:
  assumes "user_reachable db" and "userID \<noteq> []" and "user_GetUserByID db userID = Inr None"
  shows "UserService_UpdateUser db now userID name phone = (Inl (ErrorsNew ''user not found''), db)"
  using assms by (simp add: UserService_UpdateUser_def)

text \<open>
  C10, as stated, fails for a stored profile that is soft-deleted: with Alice's profile
  stored and marked deleted at time 5000, \<open>UpdateUser\<close> returns \<open>user not found\<close> and the
  store, with Alice's name and phone, is as before.
\<close>

theorem UpdateUser_soft_deleted_counterexample:
  "list_ex (\<lambda>r. pu_ID r = ''id-1'' \<and> pu_Name r = ''Alice'' \<and> pu_Phone r = ''+1234567890'')
     (user_rows \<lparr>user_rows = [alice_profile\<lparr>pu_DeletedAt := Some 5000\<rparr>], address_rows = [],
                  user_reachable = True\<rparr>)
 \<and> UserService_UpdateUser
      \<lparr>user_rows = [alice_profile\<lparr>pu_DeletedAt := Some 5000\<rparr>], address_rows = [],
       user_reachable = True\<rparr> 7200 ''id-1'' ''Alice B'' ''555''
     = (Inl (ErrorsNew ''user not found''),
        \<lparr>user_rows = [alice_profile\<lparr>pu_DeletedAt := Some 5000\<rparr>], address_rows = [],
         user_reachable = True\<rparr>)"
  by (simp add: UserService_UpdateUser_def user_GetUserByID_def alice_profile_def)

text \<open>
  C10, amended. With the store answering: for a stored profile that is not soft-deleted,
  \<open>UpdateUser\<close> of the user service succeeds and replaces the stored name and the stored
  phone by its arguments, whatever they were before; the gateway's handler accepts a body
  in which one of the two fields is not empty and passes both fields on, so the stored
  name and phone become the two fields as the body decodes, a body with no member for
  \<open>phone\<close> sets the phone to the empty string, and a body with no member for \<open>name\<close>
  sets the name to the empty string. When the id has no profile that is not soft-deleted,
  \<open>UpdateUser\<close> fails with \<open>user not found\<close> and changes nothing.
\<close>

theorem UpdateUser_overwrites_name_and_phone:
  assumes "user_reachable (sys_user sys)" and "userID \<noteq> []"
  shows "(user_GetUserByID (sys_user sys) userID = Inr (Some user) \<longrightarrow>
            (\<exists>user' db'.
                UserService_UpdateUser (sys_user sys) now userID name phone = (Inr user', db')
              \<and> pu_Name user' = name \<and> pu_Phone user' = phone
              \<and> user_GetUserByID db' userID = Inr (Some user'))
          \<and> (user_service_up sys \<and> authorizeUserAccess r = Inr userID
               \<and> Body r = JSONObject obj \<and> \<not> json_type_error [''name'', ''phone''] [] obj
               \<and> (json_field obj ''name'' \<noteq> [] \<or> json_field obj ''phone'' \<noteq> []) \<longrightarrow>
              (\<exists>user' sys'.
                 http_UpdateUser env r sys
                   = (\<lparr>status = 200, payload = UserJSON (to_UserResponse (to_pb_User user'))\<rparr>,
                      sys')
               \<and> user_GetUserByID (sys_user sys') userID = Inr (Some user')
               \<and> pu_Name user' = json_field obj ''name''
               \<and> pu_Phone user' = json_field obj ''phone''
               \<and> ((\<forall>(k, v) \<in> set obj. \<not> key_matches k ''phone'') \<longrightarrow> pu_Phone user' = [])
               \<and> ((\<forall>(k, v) \<in> set obj. \<not> key_matches k ''name'') \<longrightarrow> pu_Name user' = []))))
       \<and> (user_GetUserByID (sys_user sys) userID = Inr None \<longrightarrow>
            UserService_UpdateUser (sys_user sys) now userID name phone
              = (Inl (ErrorsNew ''user not found''), sys_user sys))"
proof (intro conjI impI)
  assume stored: "user_GetUserByID (sys_user sys) userID = Inr (Some user)"
  show "\<exists>user' db'.
            UserService_UpdateUser (sys_user sys) now userID name phone = (Inr user', db')
          \<and> pu_Name user' = name \<and> pu_Phone user' = phone
          \<and> user_GetUserByID db' userID = Inr (Some user')"
    using UpdateUser_result [OF assms stored, where now = now and name = name and phone = phone]
      GetUserByID_after_update [OF assms(1) stored, where now = now and name = name
        and phone = phone]
    by simp
next
  assume stored: "user_GetUserByID (sys_user sys) userID = Inr (Some user)"
  assume req: "user_service_up sys \<and> authorizeUserAccess r = Inr userID
               \<and> Body r = JSONObject obj \<and> \<not> json_type_error [''name'', ''phone''] [] obj
               \<and> (json_field obj ''name'' \<noteq> [] \<or> json_field obj ''phone'' \<noteq> [])"
  let ?user' = "user\<lparr>pu_Name := json_field obj ''name'', pu_Phone := json_field obj ''phone'',
      pu_UpdatedAt := env_now env\<rparr>"
  have a: "http_UpdateUser env r sys
      = (\<lparr>status = 200, payload = UserJSON (to_UserResponse (to_pb_User ?user'))\<rparr>,
         sys\<lparr>sys_user := (sys_user sys)\<lparr>user_rows :=
                 map (\<lambda>r. if pu_ID r = userID
                          then r\<lparr>pu_Name := json_field obj ''name'',
                                 pu_Phone := json_field obj ''phone'',
                                 pu_UpdatedAt := env_now env\<rparr>
                          else r) (user_rows (sys_user sys))\<rparr>\<rparr>)"
    using assms stored req by (intro http_UpdateUser_success) simp_all
  have b: "user_GetUserByID
      (sys_user (sys\<lparr>sys_user := (sys_user sys)\<lparr>user_rows :=
                 map (\<lambda>r. if pu_ID r = userID
                          then r\<lparr>pu_Name := json_field obj ''name'',
                                 pu_Phone := json_field obj ''phone'',
                                 pu_UpdatedAt := env_now env\<rparr>
                          else r) (user_rows (sys_user sys))\<rparr>\<rparr>)) userID = Inr (Some ?user')"
    using GetUserByID_after_update [OF assms(1) stored, where name = "json_field obj ''name''"
        and phone = "json_field obj ''phone''" and now = "env_now env"]
    by simp
  have c: "pu_Name ?user' = json_field obj ''name''"
    and d: "pu_Phone ?user' = json_field obj ''phone''"
    by simp_all
  have e: "(\<forall>(k, v) \<in> set obj. \<not> key_matches k ''phone'') \<longrightarrow> pu_Phone ?user' = []"
    and f: "(\<forall>(k, v) \<in> set obj. \<not> key_matches k ''name'') \<longrightarrow> pu_Name ?user' = []"
    by (simp_all add: json_field_absent)
  show "\<exists>user' sys'.
              http_UpdateUser env r sys
                = (\<lparr>status = 200, payload = UserJSON (to_UserResponse (to_pb_User user'))\<rparr>,
                   sys')
            \<and> user_GetUserByID (sys_user sys') userID = Inr (Some user')
            \<and> pu_Name user' = json_field obj ''name''
            \<and> pu_Phone user' = json_field obj ''phone''
            \<and> ((\<forall>(k, v) \<in> set obj. \<not> key_matches k ''phone'') \<longrightarrow> pu_Phone user' = [])
            \<and> ((\<forall>(k, v) \<in> set obj. \<not> key_matches k ''name'') \<longrightarrow> pu_Name user' = [])"
    by (intro exI conjI) (rule a, rule b, rule c, rule d, rule e, rule f)
next
  assume "user_GetUserByID (sys_user sys) userID = Inr None"
  with assms show "UserService_UpdateUser (sys_user sys) now userID name phone
      = (Inl (ErrorsNew ''user not found''), sys_user sys)"
    by (rule UpdateUser_not_found)
qed

text \<open>
  Alice, whose stored phone is \<open>+1234567890\<close>, sends a body with a name only: the
  stored phone becomes empty. With Alice's profile soft-deleted the update fails.
\<close>

theorem UpdateUser_overwrites_name_and_phone_witness:
  "(\<exists>user' db'.
      UserService_UpdateUser (sys_user full_system) 7200 ''id-1'' ''Alice B'' [] = (Inr user', db')
    \<and> pu_Name user' = ''Alice B'' \<and> pu_Phone user' = []
    \<and> user_GetUserByID db' ''id-1'' = Inr (Some user'))
 \<and> (\<exists>user' sys'.
      http_UpdateUser test_env self_request full_system
        = (\<lparr>status = 200, payload = UserJSON (to_UserResponse (to_pb_User user'))\<rparr>, sys')
    \<and> user_GetUserByID (sys_user sys') ''id-1'' = Inr (Some user')
    \<and> pu_Name user' = json_field [(''name'', JSONString ''Alice B'')] ''name''
    \<and> pu_Phone user' = json_field [(''name'', JSONString ''Alice B'')] ''phone''
    \<and> ((\<forall>(k, v) \<in> set [(''name'', JSONString ''Alice B'')]. \<not> key_matches k ''phone'')
          \<longrightarrow> pu_Phone user' = [])
    \<and> ((\<forall>(k, v) \<in> set [(''name'', JSONString ''Alice B'')]. \<not> key_matches k ''name'')
          \<longrightarrow> pu_Name user' = []))
 \<and> json_field [(''name'', JSONString ''Alice B'')] ''name'' = ''Alice B''
 \<and> json_field [(''name'', JSONString ''Alice B'')] ''phone'' = []
 \<and> pu_Phone alice_profile = ''+1234567890''
 \<and> UserService_UpdateUser
      (sys_user (full_system\<lparr>sys_user := \<lparr>user_rows = [alice_profile\<lparr>pu_DeletedAt := Some 5000\<rparr>],
         address_rows = [], user_reachable = True\<rparr>\<rparr>)) 7200 ''id-1'' ''Alice B'' ''555''
     = (Inl (ErrorsNew ''user not found''),
        sys_user (full_system\<lparr>sys_user := \<lparr>user_rows = [alice_profile\<lparr>pu_DeletedAt := Some 5000\<rparr>],
         address_rows = [], user_reachable = True\<rparr>\<rparr>))"
proof -
  let ?obj = "[(''name'', JSONString ''Alice B'')]"
  let ?del = "full_system\<lparr>sys_user := \<lparr>user_rows = [alice_profile\<lparr>pu_DeletedAt := Some 5000\<rparr>],
         address_rows = [], user_reachable = True\<rparr>\<rparr>"
  have up: "user_reachable (sys_user full_system)"
    by (simp add: full_system_def)
  have uid: "''id-1'' \<noteq> ([] :: string)"
    by simp
  have stored: "user_GetUserByID (sys_user full_system) ''id-1'' = Inr (Some alice_profile)"
    by (simp add: user_GetUserByID_def full_system_def alice_profile_def)
  have req: "user_service_up full_system \<and> authorizeUserAccess self_request = Inr ''id-1''
      \<and> Body self_request = JSONObject ?obj \<and> \<not> json_type_error [''name'', ''phone''] [] ?obj
      \<and> (json_field ?obj ''name'' \<noteq> [] \<or> json_field ?obj ''phone'' \<noteq> [])"
    by (simp add: full_system_def alice_system_def authorizeUserAccess_def GetUserID_def
        self_request_def gate_request_def name_only_decodes)
  note U = UpdateUser_overwrites_name_and_phone [OF up uid,
      where now = 7200 and name = "''Alice B''" and phone = "[]" and r = self_request
        and obj = ?obj and env = test_env and user = alice_profile,
      THEN conjunct1, THEN mp, OF stored]
  have 1: "\<exists>user' db'.
      UserService_UpdateUser (sys_user full_system) 7200 ''id-1'' ''Alice B'' [] = (Inr user', db')
    \<and> pu_Name user' = ''Alice B'' \<and> pu_Phone user' = []
    \<and> user_GetUserByID db' ''id-1'' = Inr (Some user')"
    by (rule U [THEN conjunct1])
  have 2: "\<exists>user' sys'.
      http_UpdateUser test_env self_request full_system
        = (\<lparr>status = 200, payload = UserJSON (to_UserResponse (to_pb_User user'))\<rparr>, sys')
    \<and> user_GetUserByID (sys_user sys') ''id-1'' = Inr (Some user')
    \<and> pu_Name user' = json_field ?obj ''name''
    \<and> pu_Phone user' = json_field ?obj ''phone''
    \<and> ((\<forall>(k, v) \<in> set ?obj. \<not> key_matches k ''phone'') \<longrightarrow> pu_Phone user' = [])
    \<and> ((\<forall>(k, v) \<in> set ?obj. \<not> key_matches k ''name'') \<longrightarrow> pu_Name user' = [])"
    by (rule U [THEN conjunct2, THEN mp, OF req])
  have 3: "json_field ?obj ''name'' = ''Alice B''"
    by (rule name_only_decodes(2))
  have 4: "json_field ?obj ''phone'' = []"
    by (rule name_only_decodes(3))
  have 5: "pu_Phone alice_profile = ''+1234567890''"
    by (simp add: alice_profile_def)
  have del_up: "user_reachable (sys_user ?del)"
    by simp
  have del_none: "user_GetUserByID (sys_user ?del) ''id-1'' = Inr None"
    by (simp add: user_GetUserByID_def alice_profile_def)
  have 6: "UserService_UpdateUser (sys_user ?del) 7200 ''id-1'' ''Alice B'' ''555''
      = (Inl (ErrorsNew ''user not found''), sys_user ?del)"
    by (rule UpdateUser_overwrites_name_and_phone [OF del_up uid,
          where now = 7200 and name = "''Alice B''" and phone = "''555''",
          THEN conjunct2, THEN mp, OF del_none])
  show ?thesis
    by (intro conjI) (rule 1, rule 2, rule 3, rule 4, rule 5, rule 6)
qed

end
